theory Spec2Isabelle
  imports Complex_Main "HOL-Library.Multiset"
begin

section \<open>Numbers, units and input records\<close>

text \<open>
  The transform lives in the body of \<^verbatim>\<open>PhysicsView\<close> (PhysicsView.tsx, lines 55-485).
  JavaScript numbers are modelled as real numbers: rounding, NaN and the infinities are
  outside the model.  The fields of a shoaling sample are numbers, as the interface
  \<^verbatim>\<open>ShoalingPathPoint\<close> declares them, so the tests \<^verbatim>\<open>point.H !== undefined\<close> always
  succeed.  On numbers \<^verbatim>\<open>a || b\<close> yields \<^verbatim>\<open>b\<close> exactly when \<^verbatim>\<open>a\<close> is \<^verbatim>\<open>0\<close>.
\<close>

definition js_or :: "real \<Rightarrow> real \<Rightarrow> real" where
  "js_or a b = (if a = 0 then b else a)"

text \<open>\<^verbatim>\<open>a || b\<close> where \<^verbatim>\<open>a\<close> may be \<^verbatim>\<open>undefined\<close> (\<open>None\<close>).\<close>

definition js_or_opt :: "real option \<Rightarrow> real \<Rightarrow> real" where
  "js_or_opt a b = (case a of None \<Rightarrow> b | Some v \<Rightarrow> js_or v b)"

text \<open>\<^verbatim>\<open>a < (b || Infinity)\<close> for a finite \<^verbatim>\<open>a\<close>.\<close>

definition lt_or_Infinity :: "real \<Rightarrow> real \<Rightarrow> bool" where
  "lt_or_Infinity a b = (if b = 0 then True else a < b)"

datatype UnitSystem = metric | imperial

text \<open>The \<^verbatim>\<open>.value\<close> component of the converters of the unit context.\<close>

definition convertHeight :: "UnitSystem \<Rightarrow> real \<Rightarrow> real" where
  "convertHeight u meters = (if u = metric then meters else meters * 3.28084)"

definition convertDistance :: "UnitSystem \<Rightarrow> real \<Rightarrow> real" where
  "convertDistance u meters = (if u = metric then meters else meters * 3.28084)"

text \<open>The fields of \<^verbatim>\<open>ShoalingPathPoint\<close> that the transform reads: x, h, H and c.\<close>

record ShoalingPathPoint =
  p_x :: real
  p_h :: real
  p_H :: real
  p_c :: real

text \<open>
  What the component reads from its surroundings: the unit system of the unit context,
  the shoaling path, \<^verbatim>\<open>breaking.distance_from_shore_m\<close>, \<^verbatim>\<open>current.period_s\<close> and
  \<^verbatim>\<open>current.tide?.level_m\<close> (each possibly undefined).
\<close>

record PhysicsInput =
  units :: UnitSystem
  shoalingPath :: "ShoalingPathPoint list"
  distance_from_shore_m :: "real option"
  period_s :: "real option"
  tide_level_m :: "real option"

definition MAX_DISTANCE_M :: real where
  "MAX_DISTANCE_M = 152"

definition MIN_DISTANCE_M :: real where
  "MIN_DISTANCE_M = - 6"

definition MAX_DISTANCE :: "PhysicsInput \<Rightarrow> real" where
  "MAX_DISTANCE inp = convertDistance (units inp) MAX_DISTANCE_M"

definition MIN_DISTANCE :: "PhysicsInput \<Rightarrow> real" where
  "MIN_DISTANCE inp = convertDistance (units inp) MIN_DISTANCE_M"

definition GAMMA_B :: real where
  "GAMMA_B = 0.78"

text \<open>
  \<^verbatim>\<open>xs.sort((a, b) => b.x - a.x)\<close> and \<^verbatim>\<open>xs.sort((a, b) => a.x - b.x)\<close>: stable sorts
  by decreasing and by increasing key.
\<close>

definition sort_desc :: "('a \<Rightarrow> real) \<Rightarrow> 'a list \<Rightarrow> 'a list" where
  "sort_desc f xs = sort_key (\<lambda>p. - f p) xs"

definition sort_asc :: "('a \<Rightarrow> real) \<Rightarrow> 'a list \<Rightarrow> 'a list" where
  "sort_asc f xs = sort_key f xs"

section \<open>Interpolation over the shoaling path\<close>

text \<open>
  The search for the two bounding samples (lines 94-108, repeated at 195-209 and 392-406).
  The loop updates two variables independently; each is a left fold over the path.
  \<open>closestBefore\<close> is the sample with the smallest distance at or beyond \<open>x_m\<close>,
  \<open>closestAfter\<close> the one with the largest distance at or below it.
\<close>

definition before_step :: "real \<Rightarrow> ShoalingPathPoint option \<Rightarrow> ShoalingPathPoint \<Rightarrow> ShoalingPathPoint option" where
  "before_step x_m cb p =
     (if js_or (p_x p) 0 \<ge> x_m then
        (case cb of
           None \<Rightarrow> Some p
         | Some b \<Rightarrow> if lt_or_Infinity (js_or (p_x p) 0) (p_x b) then Some p else Some b)
      else cb)"

definition after_step :: "real \<Rightarrow> ShoalingPathPoint option \<Rightarrow> ShoalingPathPoint \<Rightarrow> ShoalingPathPoint option" where
  "after_step x_m ca p =
     (if js_or (p_x p) 0 \<le> x_m then
        (case ca of
           None \<Rightarrow> Some p
         | Some a \<Rightarrow> if js_or (p_x p) 0 > js_or (p_x a) 0 then Some p else Some a)
      else ca)"

definition closestBefore :: "ShoalingPathPoint list \<Rightarrow> real \<Rightarrow> ShoalingPathPoint option" where
  "closestBefore path x_m = foldl (before_step x_m) None path"

definition closestAfter :: "ShoalingPathPoint list \<Rightarrow> real \<Rightarrow> ShoalingPathPoint option" where
  "closestAfter path x_m = foldl (after_step x_m) None path"

text \<open>
  The branch taken by the chain
  \<^verbatim>\<open>if (closestBefore && closestAfter && closestBefore.x !== closestAfter.x) ... else if (closestBefore) ... else if (closestAfter) ... else ...\<close>.
  Only the first branch divides.
\<close>

datatype interp_branch =
  Interpolate ShoalingPathPoint ShoalingPathPoint
  | UseBefore ShoalingPathPoint
  | UseAfter ShoalingPathPoint
  | NoBound

definition branch_of :: "ShoalingPathPoint list \<Rightarrow> real \<Rightarrow> interp_branch" where
  "branch_of path x_m =
     (case closestBefore path x_m of
        Some b \<Rightarrow>
          (case closestAfter path x_m of
             Some a \<Rightarrow> if p_x b \<noteq> p_x a then Interpolate b a else UseBefore b
           | None \<Rightarrow> UseBefore b)
      | None \<Rightarrow>
          (case closestAfter path x_m of
             Some a \<Rightarrow> UseAfter a
           | None \<Rightarrow> NoBound))"

text \<open>The interpolation parameter \<^verbatim>\<open>t\<close> of the first branch and its divisor.\<close>

definition interp_divisor :: "ShoalingPathPoint \<Rightarrow> ShoalingPathPoint \<Rightarrow> real" where
  "interp_divisor b a = js_or (p_x b) 0 - js_or (p_x a) 0"

definition interp_t :: "real \<Rightarrow> ShoalingPathPoint \<Rightarrow> ShoalingPathPoint \<Rightarrow> real" where
  "interp_t x_m b a = (x_m - js_or (p_x a) 0) / interp_divisor b a"

text \<open>Depth for the bathymetry (lines 110-122).\<close>

definition h_interp :: "ShoalingPathPoint list \<Rightarrow> real \<Rightarrow> real" where
  "h_interp path x_m =
     (case branch_of path x_m of
        Interpolate b a \<Rightarrow>
          js_or (p_h a) 0 + interp_t x_m b a * (js_or (p_h b) 0 - js_or (p_h a) 0)
      | UseBefore b \<Rightarrow> js_or (p_h b) 0
      | UseAfter a \<Rightarrow> js_or (p_h a) 0
      | NoBound \<Rightarrow> max 0 (x_m * 0.03))"

text \<open>
  Wave height and phase speed for the envelope (lines 190-223); the pair is
  \<^verbatim>\<open>(H_surf, c)\<close>.
\<close>

definition H_surf_c :: "ShoalingPathPoint list \<Rightarrow> real \<Rightarrow> real \<times> real" where
  "H_surf_c path x_m =
     (if path \<noteq> [] \<and> x_m \<ge> 0 then
        (case branch_of path x_m of
           Interpolate b a \<Rightarrow>
             (js_or (p_H a) 0 + interp_t x_m b a * (js_or (p_H b) 0 - js_or (p_H a) 0),
              js_or (p_c a) 10.0 + interp_t x_m b a * (js_or (p_c b) 10.0 - js_or (p_c a) 10.0))
         | UseBefore b \<Rightarrow> (js_or (p_H b) 0, js_or (p_c b) 10.0)
         | UseAfter a \<Rightarrow> (js_or (p_H a) 0, js_or (p_c a) 10.0)
         | NoBound \<Rightarrow> (0, 10.0))
      else (0, 10.0))"

definition H_surf :: "ShoalingPathPoint list \<Rightarrow> real \<Rightarrow> real" where
  "H_surf path x_m = fst (H_surf_c path x_m)"

text \<open>
  Wave height and phase speed inside the surface loop (lines 387-420); the pair is
  \<^verbatim>\<open>(H_surf_m, c)\<close>.  Line 412 subtracts \<^verbatim>\<open>closestBefore.c || 10.0\<close> from itself.
\<close>

definition H_surf_m_c :: "ShoalingPathPoint list \<Rightarrow> real \<Rightarrow> real \<times> real" where
  "H_surf_m_c path x_m =
     (if path \<noteq> [] then
        (case branch_of path x_m of
           Interpolate b a \<Rightarrow>
             (js_or (p_H a) 0 + interp_t x_m b a * (js_or (p_H b) 0 - js_or (p_H a) 0),
              js_or (p_c a) 10.0 + interp_t x_m b a * (js_or (p_c b) 10.0 - js_or (p_c b) 10.0))
         | UseBefore b \<Rightarrow> (js_or (p_H b) 0, js_or (p_c b) 10.0)
         | UseAfter a \<Rightarrow> (js_or (p_H a) 0, js_or (p_c a) 10.0)
         | NoBound \<Rightarrow> (0, 10.0))
      else (0, 10.0))"

section \<open>Breaking point\<close>

record BreakingPoint =
  bp_x :: real
  bp_h :: real
  bp_H :: real
  bp_c :: real

text \<open>The scan of lines 151-164 over the path sorted by decreasing distance.\<close>

fun breaking_scan :: "ShoalingPathPoint list \<Rightarrow> BreakingPoint option" where
  "breaking_scan [] = None"
| "breaking_scan (point # rest) =
     (if p_h point > 0 then
        (let H_d_ratio = p_H point / p_h point in
         if H_d_ratio \<ge> GAMMA_B then
           Some \<lparr>bp_x = js_or (p_x point) 0, bp_h = p_h point, bp_H = p_H point,
                 bp_c = js_or (p_c point) 10.0\<rparr>
         else breaking_scan rest)
      else breaking_scan rest)"

definition sortedPath :: "PhysicsInput \<Rightarrow> ShoalingPathPoint list" where
  "sortedPath inp = sort_desc (\<lambda>p. js_or (p_x p) 0) (shoalingPath inp)"

definition breakingPointFromPhysics :: "PhysicsInput \<Rightarrow> BreakingPoint option" where
  "breakingPointFromPhysics inp =
     (if shoalingPath inp \<noteq> [] then breaking_scan (sortedPath inp) else None)"

text \<open>
  Line 169: \<^verbatim>\<open>breakingPointFromPhysics?.x || breaking.distance_from_shore_m || 0\<close>.
\<close>

definition breakingDistM :: "PhysicsInput \<Rightarrow> real" where
  "breakingDistM inp =
     js_or_opt (map_option bp_x (breakingPointFromPhysics inp))
       (js_or_opt (distance_from_shore_m inp) 0)"

text \<open>Lines 262-266.\<close>

definition breakingDistDisplay :: "PhysicsInput \<Rightarrow> real" where
  "breakingDistDisplay inp =
     (if breakingDistM inp > 0 then convertDistance (units inp) (breakingDistM inp)
      else (case distance_from_shore_m inp of
              Some d \<Rightarrow> convertDistance (units inp) d
            | None \<Rightarrow> 0))"

section \<open>Bathymetry and wave envelope\<close>

record BathyPoint =
  b_x :: real
  b_h :: real

text \<open>
  Lines 81-141: 21 evenly spaced points over \<open>[0, MAX_DISTANCE_M]\<close>, the beach point, and
  the sort by decreasing distance.
\<close>

definition numBathyPoints :: nat where
  "numBathyPoints = 20"

definition bathymetryFromPhysics :: "PhysicsInput \<Rightarrow> BathyPoint list" where
  "bathymetryFromPhysics inp =
     sort_desc b_x
       ((if shoalingPath inp \<noteq> [] then
           map (\<lambda>i. let x_m = (real i / real numBathyPoints) * MAX_DISTANCE_M in
                  \<lparr>b_x = x_m, b_h = h_interp (shoalingPath inp) x_m\<rparr>)
             [0..<Suc numBathyPoints]
         else
           (let tideLevel = (case tide_level_m inp of None \<Rightarrow> 0 | Some l \<Rightarrow> l) in
            map (\<lambda>i. let x_m = (real i / 20) * MAX_DISTANCE_M in
                   \<lparr>b_x = x_m, b_h = max 0 (x_m * 0.03 + tideLevel)\<rparr>)
              [0..<Suc 20]))
        @ [\<lparr>b_x = - 6, b_h = - 1.5\<rparr>])"

record VisPoint =
  v_x :: real
  bathymetryY :: real
  waveCrestY :: "real option"
  waveTroughY :: "real option"
  waterSurfaceY :: real

text \<open>Lines 238-255: the shore point synthesized when no point lies within 0.1 of x = 0.\<close>

definition nearestToShore :: "ShoalingPathPoint list \<Rightarrow> ShoalingPathPoint option" where
  "nearestToShore path =
     (case path of
        [] \<Rightarrow> None
      | p0 # _ \<Rightarrow>
          Some (foldl (\<lambda>closest p.
                  if \<bar>js_or (p_x p) 0\<bar> < \<bar>js_or (p_x closest) 0\<bar> then p else closest) p0 path))"

definition shorePointMeters :: "ShoalingPathPoint list \<Rightarrow> VisPoint" where
  "shorePointMeters path =
     (let H_surf_shore = js_or_opt (map_option p_H (nearestToShore path)) 0 in
      \<lparr>v_x = 0, bathymetryY = 0.0,
        waveCrestY = (if H_surf_shore > 0 then Some (- H_surf_shore / 2) else None),
        waveTroughY = (if H_surf_shore > 0 then Some (H_surf_shore / 2) else None),
        waterSurfaceY = 0\<rparr>)"

text \<open>Lines 186-259.\<close>

definition visualizationDataMeters :: "PhysicsInput \<Rightarrow> VisPoint list" where
  "visualizationDataMeters inp =
     (let pts = map (\<lambda>bathPoint.
                   let x_m = b_x bathPoint;
                       H = H_surf (shoalingPath inp) x_m in
                   \<lparr>v_x = b_x bathPoint, bathymetryY = b_h bathPoint,
                     waveCrestY = (if H > 0 then Some (- H / 2) else None),
                     waveTroughY = (if H > 0 then Some (H / 2) else None),
                     waterSurfaceY = 0\<rparr>)
                 (bathymetryFromPhysics inp);
          hasShorePointMeters = list_ex (\<lambda>d. \<bar>v_x d\<bar> < 0.1) pts
      in sort_desc v_x
           (if \<not> hasShorePointMeters then pts @ [shorePointMeters (shoalingPath inp)] else pts))"

text \<open>Lines 269-275: conversion to display units and the window filter.\<close>

definition visualizationData :: "PhysicsInput \<Rightarrow> VisPoint list" where
  "visualizationData inp =
     filter (\<lambda>d. v_x d \<ge> MIN_DISTANCE inp \<and> v_x d \<le> MAX_DISTANCE inp)
       (map (\<lambda>d. \<lparr>v_x = convertDistance (units inp) (v_x d),
                   bathymetryY = convertHeight (units inp) (bathymetryY d),
                   waveCrestY = (case waveCrestY d of
                                   Some cr \<Rightarrow> Some (- convertHeight (units inp) \<bar>cr\<bar>)
                                 | None \<Rightarrow> None),
                   waveTroughY = (case waveTroughY d of
                                    Some tr \<Rightarrow> Some (convertHeight (units inp) tr)
                                  | None \<Rightarrow> None),
                   waterSurfaceY = 0\<rparr>)
          (visualizationDataMeters inp))"

text \<open>
  Lines 282-295.  \<open>None\<close> is the TypeError of reading \<^verbatim>\<open>nearest.waveCrestY\<close> when
  \<^verbatim>\<open>visualizationData\<close> is empty and \<^verbatim>\<open>nearest\<close> therefore undefined.
\<close>

definition shorePoint :: "PhysicsInput \<Rightarrow> VisPoint option" where
  "shorePoint inp =
     (case List.find (\<lambda>d. \<bar>v_x d\<bar> < 0.01) (visualizationData inp) of
        Some s \<Rightarrow> Some s
      | None \<Rightarrow>
          (case visualizationData inp of
             [] \<Rightarrow> None
           | d0 # _ \<Rightarrow>
               (let nearest = foldl (\<lambda>closest d. if \<bar>v_x d\<bar> < \<bar>v_x closest\<bar> then d else closest)
                                d0 (visualizationData inp) in
                Some \<lparr>v_x = 0, bathymetryY = 0, waveCrestY = waveCrestY nearest,
                       waveTroughY = waveTroughY nearest, waterSurfaceY = 0\<rparr>)))"

text \<open>Lines 300-310.\<close>

definition bathymetryData :: "PhysicsInput \<Rightarrow> VisPoint list option" where
  "bathymetryData inp =
     (case shorePoint inp of
        None \<Rightarrow> None
      | Some sp \<Rightarrow>
          (let bathymetryPoints_Display =
                 filter (\<lambda>d. v_x d \<ge> 0 \<and> v_x d \<le> MAX_DISTANCE inp) (visualizationData inp);
               hasShoreInBathy = list_ex (\<lambda>d. \<bar>v_x d\<bar> < 0.01) bathymetryPoints_Display
           in Some (sort_asc v_x
                (if \<not> hasShoreInBathy then bathymetryPoints_Display @ [sp]
                 else bathymetryPoints_Display))))"

text \<open>Lines 313-327; \<^verbatim>\<open>breakingXDisplay\<close> is \<^verbatim>\<open>breakingDistDisplay\<close> (line 279).\<close>

definition waveEnvelopeData :: "PhysicsInput \<Rightarrow> VisPoint list option" where
  "waveEnvelopeData inp =
     (case shorePoint inp of
        None \<Rightarrow> None
      | Some sp \<Rightarrow>
          (let breakingXDisplay = breakingDistDisplay inp;
               kept = filter (\<lambda>d. if breakingXDisplay \<le> 0
                                   then v_x d \<ge> 0 \<and> v_x d \<le> MAX_DISTANCE inp
                                   else v_x d \<ge> 0 \<and> v_x d \<le> breakingXDisplay)
                        (visualizationData inp);
               hasShoreInWave = list_ex (\<lambda>d. \<bar>v_x d\<bar> < 0.01) kept
           in Some (sort_asc v_x (if \<not> hasShoreInWave then kept @ [sp] else kept))))"

section \<open>Wave surface\<close>

record WavePoint =
  w_x :: real
  w_y :: real

definition period :: "PhysicsInput \<Rightarrow> real" where
  "period inp = js_or_opt (period_s inp) 11.0"

text \<open>Line 353: \<^verbatim>\<open>Math.max\<close> over the distances of a non-empty path.\<close>

definition maxXFromPath :: "PhysicsInput \<Rightarrow> real" where
  "maxXFromPath inp =
     (case map (\<lambda>p. js_or (p_x p) 0) (shoalingPath inp) of
        [] \<Rightarrow> MAX_DISTANCE_M
      | v # vs \<Rightarrow> foldl max v vs)"

definition startX :: "PhysicsInput \<Rightarrow> real" where
  "startX inp = min MAX_DISTANCE_M (maxXFromPath inp)"

definition endX :: "PhysicsInput \<Rightarrow> real" where
  "endX inp = max 0 (breakingDistM inp)"

definition numPoints :: nat where
  "numPoints = 600"

text \<open>Lines 361-370.\<close>

definition avgC :: "ShoalingPathPoint list \<Rightarrow> real" where
  "avgC path = foldl (\<lambda>sum p. sum + js_or (p_c p) 10.0) 0 path / real (length path)"

definition wavelength_ref :: "PhysicsInput \<Rightarrow> real" where
  "wavelength_ref inp =
     (case (case breakingPointFromPhysics inp of
              Some bp \<Rightarrow> if bp_c bp \<noteq> 0 then Some (bp_c bp) else None
            | None \<Rightarrow> None) of
        Some c_break \<Rightarrow> c_break * period inp
      | None \<Rightarrow>
          if shoalingPath inp \<noteq> [] then avgC (shoalingPath inp) * period inp else 50)"

text \<open>Lines 375-379.\<close>

definition globalPhaseOffset :: "PhysicsInput \<Rightarrow> real" where
  "globalPhaseOffset inp =
     (if wavelength_ref inp > 0 then
        (let k_ref = 2 * pi / wavelength_ref inp in pi / 2 - k_ref * breakingDistM inp)
      else 0)"

text \<open>The body of the loop of lines 381-450 at index \<open>i\<close>.\<close>

definition x_m_at :: "PhysicsInput \<Rightarrow> nat \<Rightarrow> real" where
  "x_m_at inp i = startX inp + (endX inp - startX inp) * (real i / real numPoints)"

definition k_ref :: "PhysicsInput \<Rightarrow> real" where
  "k_ref inp = 2 * pi / wavelength_ref inp"

definition phase_at :: "PhysicsInput \<Rightarrow> nat \<Rightarrow> real" where
  "phase_at inp i = k_ref inp * x_m_at inp i + globalPhaseOffset inp"

definition y_m_at :: "PhysicsInput \<Rightarrow> nat \<Rightarrow> real" where
  "y_m_at inp i =
     (case H_surf_m_c (shoalingPath inp) (x_m_at inp i) of
        (H_surf_m, c) \<Rightarrow>
          (let amplitude_m = H_surf_m / 2 in - amplitude_m * sin (phase_at inp i)))"

text \<open>Conversion of an elevation to display units, preserving its sign (lines 436-438).\<close>

definition signedHeight :: "PhysicsInput \<Rightarrow> real \<Rightarrow> real" where
  "signedHeight inp y =
     (if y < 0 then - convertHeight (units inp) \<bar>y\<bar> else convertHeight (units inp) y)"

definition wavePoint_at :: "PhysicsInput \<Rightarrow> nat \<Rightarrow> WavePoint" where
  "wavePoint_at inp i =
     \<lparr>w_x = convertDistance (units inp) (x_m_at inp i), w_y = signedHeight inp (y_m_at inp i)\<rparr>"

definition inWindow :: "PhysicsInput \<Rightarrow> WavePoint \<Rightarrow> bool" where
  "inWindow inp p = (w_x p \<ge> 0 \<and> w_x p \<le> max (breakingDistDisplay inp) (MAX_DISTANCE inp))"

definition waveLoop :: "PhysicsInput \<Rightarrow> WavePoint list" where
  "waveLoop inp = filter (inWindow inp) (map (wavePoint_at inp) [0..<Suc numPoints])"

text \<open>
  Lines 469-481: \<^verbatim>\<open>findIndex\<close> and the assignment to the \<^verbatim>\<open>y\<close> of the first point that
  satisfies the test.
\<close>

fun update_first :: "(WavePoint \<Rightarrow> bool) \<Rightarrow> real \<Rightarrow> WavePoint list \<Rightarrow> WavePoint list" where
  "update_first P y [] = []"
| "update_first P y (p # ps) = (if P p then p\<lparr>w_y := y\<rparr> # ps else p # update_first P y ps)"

definition y_break_display :: "PhysicsInput \<Rightarrow> BreakingPoint \<Rightarrow> real" where
  "y_break_display inp bp =
     (let breakingH = js_or (bp_H bp) 0;
          phaseAtBreaking = pi / 2;
          amplitude_break = breakingH / 2;
          y_break = - amplitude_break * sin phaseAtBreaking
      in signedHeight inp y_break)"

text \<open>Lines 453-485: the forced crest and the final sort, both inside the same guard.\<close>

definition forceCrest :: "PhysicsInput \<Rightarrow> WavePoint list \<Rightarrow> WavePoint list" where
  "forceCrest inp pts =
     (case breakingPointFromPhysics inp of
        None \<Rightarrow> pts
      | Some bp \<Rightarrow>
          if breakingDistM inp \<ge> 0 then
            (let breakingXDisplay = convertDistance (units inp) (breakingDistM inp);
                 near = (\<lambda>p. \<bar>w_x p - breakingXDisplay\<bar> < 0.1);
                 breakingPointExists = list_ex near pts
             in sort_asc w_x
                  (if \<not> breakingPointExists
                   then pts @ [\<lparr>w_x = breakingXDisplay, w_y = y_break_display inp bp\<rparr>]
                   else update_first near (y_break_display inp bp) pts))
          else pts)"

definition waveShapeData :: "PhysicsInput \<Rightarrow> WavePoint list" where
  "waveShapeData inp =
     (if shoalingPath inp \<noteq> [] then forceCrest inp (waveLoop inp) else [])"

text \<open>The samples of the end-to-end example.\<close>

definition e2e_samples :: "ShoalingPathPoint list" where
  "e2e_samples =
     [\<lparr>p_x = 200, p_h = 5, p_H = 1.0, p_c = 8\<rparr>,
      \<lparr>p_x = 50, p_h = 1.0, p_H = 0.9, p_c = 5\<rparr>,
      \<lparr>p_x = 0, p_h = 0, p_H = 0, p_c = 0\<rparr>]"

text \<open>
  Two further inputs: one whose only breaking sample stands on the shoreline, one where no
  sample reaches the breaker index.  Both carry an external default breaking distance.
\<close>

definition shore_break_input :: PhysicsInput where
  "shore_break_input =
     \<lparr>units = metric,
      shoalingPath = [\<lparr>p_x = 200, p_h = 5, p_H = 1.0, p_c = 8\<rparr>,
                      \<lparr>p_x = 0, p_h = 1.0, p_H = 0.9, p_c = 5\<rparr>],
      distance_from_shore_m = Some 30, period_s = None, tide_level_m = None\<rparr>"

definition no_break_input :: PhysicsInput where
  "no_break_input =
     \<lparr>units = metric,
      shoalingPath = [\<lparr>p_x = 200, p_h = 5, p_H = 1.0, p_c = 8\<rparr>,
                      \<lparr>p_x = 100, p_h = 3, p_H = 1.0, p_c = 7\<rparr>],
      distance_from_shore_m = Some 30, period_s = None, tide_level_m = None\<rparr>"

text \<open>The end-to-end example as a whole input, in metric units and with no defaults.\<close>

definition e2e_input :: PhysicsInput where
  "e2e_input =
     \<lparr>units = metric, shoalingPath = e2e_samples, distance_from_shore_m = None,
      period_s = None, tide_level_m = None\<rparr>"

text \<open>
  The common shape of the three copies of the interpolation, for a field \<open>f\<close> whose
  \<^verbatim>\<open>|| 0\<close> default leaves it unchanged; used to state facts about all copies at once.
\<close>

definition field_value :: "(ShoalingPathPoint \<Rightarrow> real) \<Rightarrow> real \<Rightarrow> real \<Rightarrow> interp_branch \<Rightarrow> real" where
  "field_value f dflt x_m br =
     (case br of
        Interpolate b a \<Rightarrow> f a + interp_t x_m b a * (f b - f a)
      | UseBefore b \<Rightarrow> f b
      | UseAfter a \<Rightarrow> f a
      | NoBound \<Rightarrow> dflt)"

text \<open>The shoreline-breaking input without an external default distance.\<close>

definition shore_break_only_input :: PhysicsInput where
  "shore_break_only_input =
     \<lparr>units = metric,
      shoalingPath = [\<lparr>p_x = 200, p_h = 5, p_H = 1.0, p_c = 8\<rparr>,
                      \<lparr>p_x = 0, p_h = 1.0, p_H = 0.9, p_c = 5\<rparr>],
      distance_from_shore_m = None, period_s = None, tide_level_m = None\<rparr>"

text \<open>Two samples, and two breaking points, that agree in everything but the phase speed.\<close>

definition same_but_c :: "ShoalingPathPoint \<Rightarrow> ShoalingPathPoint \<Rightarrow> bool" where
  "same_but_c p q = (p_x p = p_x q \<and> p_h p = p_h q \<and> p_H p = p_H q)"

text \<open>The end-to-end example with other phase speeds at the samples that do not break.\<close>

definition e2e_other_speeds_input :: PhysicsInput where
  "e2e_other_speeds_input =
     \<lparr>units = metric,
      shoalingPath = [\<lparr>p_x = 200, p_h = 5, p_H = 1.0, p_c = 3\<rparr>,
                      \<lparr>p_x = 50, p_h = 1.0, p_H = 0.9, p_c = 5\<rparr>,
                      \<lparr>p_x = 0, p_h = 0, p_H = 0, p_c = 7\<rparr>],
      distance_from_shore_m = None, period_s = None, tide_level_m = None\<rparr>"

definition same_bp :: "BreakingPoint \<Rightarrow> BreakingPoint \<Rightarrow> bool" where
  "same_bp b1 b2 = (bp_x b1 = bp_x b2 \<and> bp_h b1 = bp_h b2 \<and> bp_H b1 = bp_H b2)"

text \<open>A path of one sample, which breaks: offshore start and breaking distance coincide.\<close>

definition single_sample_input :: PhysicsInput where
  "single_sample_input =
     \<lparr>units = metric, shoalingPath = [\<lparr>p_x = 50, p_h = 1.0, p_H = 0.9, p_c = 5\<rparr>],
      distance_from_shore_m = None, period_s = None, tide_level_m = None\<rparr>"

text \<open>
  Three inputs around the forced crest.  In the first the breaking sample stands on the
  shoreline, the default distance is 30 and the offshore start is only 50, so the grid step
  is below the tolerance of 0.1.  The other two lie outside the ranges of the data model:
  a negative default distance, and a negative period.
\<close>

definition near_shore_break_input :: PhysicsInput where
  "near_shore_break_input =
     \<lparr>units = metric,
      shoalingPath = [\<lparr>p_x = 50, p_h = 5, p_H = 1.0, p_c = 8\<rparr>,
                      \<lparr>p_x = 0, p_h = 1.0, p_H = 0.9, p_c = 5\<rparr>],
      distance_from_shore_m = Some 30, period_s = None, tide_level_m = None\<rparr>"

definition negative_default_input :: PhysicsInput where
  "negative_default_input =
     \<lparr>units = metric,
      shoalingPath = [\<lparr>p_x = 200, p_h = 5, p_H = 1.0, p_c = 8\<rparr>,
                      \<lparr>p_x = 0, p_h = 1.0, p_H = 0.9, p_c = 5\<rparr>],
      distance_from_shore_m = Some (- 5), period_s = None, tide_level_m = None\<rparr>"

definition negative_period_input :: PhysicsInput where
  "negative_period_input =
     \<lparr>units = metric, shoalingPath = e2e_samples, distance_from_shore_m = None,
      period_s = Some (- 11), tide_level_m = None\<rparr>"

section \<open>Basic facts\<close>

lemma js_or_zero [simp]: "js_or a 0 = a"
  by (simp add: js_or_def)

lemmas interp_unfold =
  branch_of_def closestBefore_def closestAfter_def before_step_def after_step_def
  lt_or_Infinity_def interp_t_def interp_divisor_def

lemma sortedPath_e2e:
  "shoalingPath inp = e2e_samples \<Longrightarrow> sortedPath inp = e2e_samples"
  by (simp add: sortedPath_def sort_desc_def e2e_samples_def)

lemma shore_break_bp:
  "breakingPointFromPhysics shore_break_input
     = Some \<lparr>bp_x = 0, bp_h = 1.0, bp_H = 0.9, bp_c = 5\<rparr>"
  by (simp add: breakingPointFromPhysics_def sortedPath_def sort_desc_def shore_break_input_def
      GAMMA_B_def js_or_def)

lemma no_break_bp: "breakingPointFromPhysics no_break_input = None"
  by (simp add: breakingPointFromPhysics_def sortedPath_def sort_desc_def no_break_input_def
      GAMMA_B_def js_or_def)

section \<open>The end-to-end example\<close>

text \<open>
  Claim C8.  For the samples (d=200, h=5, H=1.0, c=8), (d=50, h=1.0, H=0.9, c=5),
  (d=0, h=0, H=0, c=0) and breaker index 0.78, the detected breaking point is
  (distance 50, depth 1.0, height 0.9, phase speed 5), whatever the other inputs are, and
  the depth interpolated at d=100 between the samples at 50 and 200 is 7/3, which is
  2.33 m to two decimals.
\<close>

theorem e2e_breaking_point_and_depth:
  "breakingPointFromPhysics
     \<lparr>units = u, shoalingPath = e2e_samples, distance_from_shore_m = dflt,
      period_s = per, tide_level_m = tide\<rparr>
     = Some \<lparr>bp_x = 50, bp_h = 1.0, bp_H = 0.9, bp_c = 5\<rparr>
   \<and> h_interp e2e_samples 100 = 7 / 3
   \<and> \<bar>h_interp e2e_samples 100 - 2.33\<bar> < 0.005"
proof -
  have bp: "breakingPointFromPhysics
     \<lparr>units = u, shoalingPath = e2e_samples, distance_from_shore_m = dflt,
      period_s = per, tide_level_m = tide\<rparr>
     = Some \<lparr>bp_x = 50, bp_h = 1.0, bp_H = 0.9, bp_c = 5\<rparr>"
    unfolding breakingPointFromPhysics_def
    by (simp add: sortedPath_e2e) (simp add: e2e_samples_def GAMMA_B_def js_or_def)
  have h: "h_interp e2e_samples 100 = 7 / 3"
    by (simp add: h_interp_def interp_unfold e2e_samples_def)
  show ?thesis using bp h by simp
qed

section \<open>The breaking distance in use\<close>

text \<open>
  Claim C10.  When the detected breaking point has distance exactly 0, the breaking
  distance in use is the externally supplied default (0 when there is none), and it and
  its display value are those of a run with the same default and units in which detection
  found nothing.
\<close>

theorem breakingDistM_zero_falls_back:
  assumes "breakingPointFromPhysics inp = Some bp" and "bp_x bp = 0"
    and "breakingPointFromPhysics inp' = None"
    and "distance_from_shore_m inp' = distance_from_shore_m inp"
    and "units inp' = units inp"
  shows "breakingDistM inp = (case distance_from_shore_m inp of None \<Rightarrow> 0 | Some d \<Rightarrow> d)
       \<and> breakingDistM inp = breakingDistM inp'
       \<and> breakingDistDisplay inp = breakingDistDisplay inp'"
  using assms
  by (auto simp: breakingDistM_def breakingDistDisplay_def js_or_opt_def js_or_def
      split: option.splits)

theorem breakingDistM_zero_falls_back_witness:
  "breakingPointFromPhysics shore_break_input
     = Some \<lparr>bp_x = 0, bp_h = 1.0, bp_H = 0.9, bp_c = 5\<rparr>
   \<and> breakingPointFromPhysics no_break_input = None
   \<and> breakingDistM shore_break_input = 30
   \<and> breakingDistM shore_break_input = breakingDistM no_break_input
   \<and> breakingDistDisplay shore_break_input = breakingDistDisplay no_break_input"
  using breakingDistM_zero_falls_back [OF shore_break_bp _ no_break_bp]
  by (simp add: shore_break_bp no_break_bp) (simp add: shore_break_input_def no_break_input_def)

section \<open>Phase speed inside the surface loop\<close>

text \<open>
  Claim C4 (the code departs from it).  At x = 100, strictly between the samples at 50
  (c = 5) and 200 (c = 8), the surface loop computes the phase speed 5, the value of the
  nearer-to-shore sample alone, where linear interpolation gives 6; the envelope loop, on
  the same samples and position, computes 6.
\<close>

theorem surface_phase_speed_not_interpolated:
  "snd (H_surf_m_c e2e_samples 100) = 5 \<and> snd (H_surf_c e2e_samples 100) = 6"
  by (simp add: H_surf_m_c_def H_surf_c_def interp_unfold e2e_samples_def js_or_def)

section \<open>Breaking-point detection\<close>

lemma breaking_scan_None:
  "breaking_scan xs = None \<longleftrightarrow> (\<forall>p\<in>set xs. \<not> (0 < p_h p \<and> GAMMA_B \<le> p_H p / p_h p))"
  by (induction xs) (auto simp: Let_def)

lemma breaking_scan_Some:
  "breaking_scan xs = Some bp \<Longrightarrow>
   \<exists>pre point post. xs = pre @ point # post
     \<and> (\<forall>q\<in>set pre. \<not> (0 < p_h q \<and> GAMMA_B \<le> p_H q / p_h q))
     \<and> 0 < p_h point \<and> GAMMA_B \<le> p_H point / p_h point
     \<and> bp = \<lparr>bp_x = p_x point, bp_h = p_h point, bp_H = p_H point, bp_c = js_or (p_c point) 10.0\<rparr>"
proof (induction xs)
  case Nil
  then show ?case by simp
next
  case (Cons a xs)
  show ?case
  proof (cases "0 < p_h a \<and> GAMMA_B \<le> p_H a / p_h a")
    case True
    with Cons.prems have "bp = \<lparr>bp_x = p_x a, bp_h = p_h a, bp_H = p_H a, bp_c = js_or (p_c a) 10.0\<rparr>"
      by (auto simp: Let_def)
    with True have "a # xs = [] @ a # xs \<and> (\<forall>q\<in>set []. \<not> (0 < p_h q \<and> GAMMA_B \<le> p_H q / p_h q))
     \<and> 0 < p_h a \<and> GAMMA_B \<le> p_H a / p_h a
     \<and> bp = \<lparr>bp_x = p_x a, bp_h = p_h a, bp_H = p_H a, bp_c = js_or (p_c a) 10.0\<rparr>" by simp
    then show ?thesis by blast
  next
    case False
    with Cons.prems have "breaking_scan xs = Some bp" by (auto simp: Let_def split: if_splits)
    from Cons.IH [OF this] obtain pre point post where
      h: "xs = pre @ point # post" "\<forall>q\<in>set pre. \<not> (0 < p_h q \<and> GAMMA_B \<le> p_H q / p_h q)"
       "0 < p_h point" "GAMMA_B \<le> p_H point / p_h point"
       "bp = \<lparr>bp_x = p_x point, bp_h = p_h point, bp_H = p_H point, bp_c = js_or (p_c point) 10.0\<rparr>"
      by blast
    with False have "a # xs = (a # pre) @ point # post \<and> (\<forall>q\<in>set (a # pre). \<not> (0 < p_h q \<and> GAMMA_B \<le> p_H q / p_h q))
       \<and> 0 < p_h point \<and> GAMMA_B \<le> p_H point / p_h point
       \<and> bp = \<lparr>bp_x = p_x point, bp_h = p_h point, bp_H = p_H point, bp_c = js_or (p_c point) 10.0\<rparr>"
      by simp
    then show ?thesis by blast
  qed
qed

lemma sortedPath_sorted: "sorted (map (\<lambda>p. - p_x p) (sortedPath inp))"
  using sorted_sort_key [of "\<lambda>p. - p_x p" "shoalingPath inp"]
  by (simp add: sortedPath_def sort_desc_def)

lemma sortedPath_mset: "mset (sortedPath inp) = mset (shoalingPath inp)"
  by (simp add: sortedPath_def sort_desc_def)

lemma sortedPath_set: "set (sortedPath inp) = set (shoalingPath inp)"
  by (simp add: sortedPath_def sort_desc_def)

lemma sorted_desc_split:
  assumes "sorted (map (\<lambda>p. - p_x p) (pre @ point # post))" and "q \<in> set post"
  shows "p_x q \<le> p_x point"
  using assms by (auto simp: sorted_append)

text \<open>
  Claim C2.  Detection is a function of the samples.  It scans \<open>sortedPath\<close>, a stable
  rearrangement of the samples by decreasing distance, and returns the first sample with
  depth > 0 and height/depth \<ge> 0.78: no sample before it in the scan qualifies, and no
  qualifying sample lies farther offshore.  A sample with depth \<le> 0 is skipped without
  its ratio being looked at.  When no sample qualifies, and only then, the result is
  \<open>None\<close>.
\<close>

theorem breaking_point_first_qualifying:
  "(case breakingPointFromPhysics inp of
      None \<Rightarrow> \<forall>p\<in>set (shoalingPath inp). \<not> (0 < p_h p \<and> GAMMA_B \<le> p_H p / p_h p)
    | Some bp \<Rightarrow>
        \<exists>pre point post. sortedPath inp = pre @ point # post
          \<and> (\<forall>q\<in>set pre. \<not> (0 < p_h q \<and> GAMMA_B \<le> p_H q / p_h q))
          \<and> 0 < p_h point \<and> GAMMA_B \<le> p_H point / p_h point
          \<and> bp = \<lparr>bp_x = p_x point, bp_h = p_h point, bp_H = p_H point,
                   bp_c = js_or (p_c point) 10.0\<rparr>
          \<and> (\<forall>q\<in>set (shoalingPath inp).
                0 < p_h q \<and> GAMMA_B \<le> p_H q / p_h q \<longrightarrow> p_x q \<le> p_x point))
   \<and> sorted (map (\<lambda>p. - p_x p) (sortedPath inp))
   \<and> mset (sortedPath inp) = mset (shoalingPath inp)
   \<and> (\<forall>point rest. p_h point \<le> 0 \<longrightarrow> breaking_scan (point # rest) = breaking_scan rest)"
proof -
  have skip: "\<forall>point rest. p_h point \<le> 0 \<longrightarrow> breaking_scan (point # rest) = breaking_scan rest"
    by simp
  have main: "(case breakingPointFromPhysics inp of
      None \<Rightarrow> \<forall>p\<in>set (shoalingPath inp). \<not> (0 < p_h p \<and> GAMMA_B \<le> p_H p / p_h p)
    | Some bp \<Rightarrow>
        \<exists>pre point post. sortedPath inp = pre @ point # post
          \<and> (\<forall>q\<in>set pre. \<not> (0 < p_h q \<and> GAMMA_B \<le> p_H q / p_h q))
          \<and> 0 < p_h point \<and> GAMMA_B \<le> p_H point / p_h point
          \<and> bp = \<lparr>bp_x = p_x point, bp_h = p_h point, bp_H = p_H point,
                   bp_c = js_or (p_c point) 10.0\<rparr>
          \<and> (\<forall>q\<in>set (shoalingPath inp).
                0 < p_h q \<and> GAMMA_B \<le> p_H q / p_h q \<longrightarrow> p_x q \<le> p_x point))"
  proof (cases "breakingPointFromPhysics inp")
    case None
    have "\<forall>p\<in>set (shoalingPath inp). \<not> (0 < p_h p \<and> GAMMA_B \<le> p_H p / p_h p)"
    proof (cases "shoalingPath inp = []")
      case True
      then show ?thesis by simp
    next
      case False
      with None have "breaking_scan (sortedPath inp) = None"
        by (simp add: breakingPointFromPhysics_def)
      then show ?thesis by (simp add: breaking_scan_None sortedPath_set)
    qed
    with None show ?thesis by simp
  next
    case (Some bp)
    then have "breaking_scan (sortedPath inp) = Some bp"
      by (simp add: breakingPointFromPhysics_def split: if_splits)
    from breaking_scan_Some [OF this] obtain pre point post where
      h: "sortedPath inp = pre @ point # post"
        "\<forall>q\<in>set pre. \<not> (0 < p_h q \<and> GAMMA_B \<le> p_H q / p_h q)"
        "0 < p_h point" "GAMMA_B \<le> p_H point / p_h point"
        "bp = \<lparr>bp_x = p_x point, bp_h = p_h point, bp_H = p_H point, bp_c = js_or (p_c point) 10.0\<rparr>"
      by blast
    have srt: "sorted (map (\<lambda>p. - p_x p) (pre @ point # post))"
      using sortedPath_sorted [of inp] h(1) by simp
    have far: "\<forall>q\<in>set (shoalingPath inp).
                0 < p_h q \<and> GAMMA_B \<le> p_H q / p_h q \<longrightarrow> p_x q \<le> p_x point"
    proof (intro ballI impI)
      fix q assume q: "q \<in> set (shoalingPath inp)" "0 < p_h q \<and> GAMMA_B \<le> p_H q / p_h q"
      then have "q \<in> set (pre @ point # post)" using h(1) sortedPath_set [of inp] by simp
      then consider "q \<in> set pre" | "q = point" | "q \<in> set post" by auto
      then show "p_x q \<le> p_x point"
      proof cases
        case 1 with h(2) q(2) show ?thesis by blast
      next
        case 2 then show ?thesis by simp
      next
        case 3 then show ?thesis using sorted_desc_split [OF srt] by simp
      qed
    qed
    from h far have "\<exists>pre point post. sortedPath inp = pre @ point # post
          \<and> (\<forall>q\<in>set pre. \<not> (0 < p_h q \<and> GAMMA_B \<le> p_H q / p_h q))
          \<and> 0 < p_h point \<and> GAMMA_B \<le> p_H point / p_h point
          \<and> bp = \<lparr>bp_x = p_x point, bp_h = p_h point, bp_H = p_H point,
                   bp_c = js_or (p_c point) 10.0\<rparr>
          \<and> (\<forall>q\<in>set (shoalingPath inp).
                0 < p_h q \<and> GAMMA_B \<le> p_H q / p_h q \<longrightarrow> p_x q \<le> p_x point)"
      by blast
    with Some show ?thesis by simp
  qed
  show ?thesis using main skip sortedPath_sorted [of inp] sortedPath_mset [of inp] by blast
qed

lemma e2e_bp: "breakingPointFromPhysics e2e_input = Some \<lparr>bp_x = 50, bp_h = 1.0, bp_H = 0.9, bp_c = 5\<rparr>"
  unfolding breakingPointFromPhysics_def
  by (simp add: sortedPath_e2e e2e_input_def) (simp add: e2e_samples_def GAMMA_B_def js_or_def)

theorem breaking_point_first_qualifying_witness:
  "breakingPointFromPhysics e2e_input = Some \<lparr>bp_x = 50, bp_h = 1.0, bp_H = 0.9, bp_c = 5\<rparr>
   \<and> (\<exists>pre point post. sortedPath e2e_input = pre @ point # post
          \<and> (\<forall>q\<in>set pre. \<not> (0 < p_h q \<and> GAMMA_B \<le> p_H q / p_h q))
          \<and> 0 < p_h point \<and> GAMMA_B \<le> p_H point / p_h point
          \<and> p_x point = 50
          \<and> (\<forall>q\<in>set (shoalingPath e2e_input).
                0 < p_h q \<and> GAMMA_B \<le> p_H q / p_h q \<longrightarrow> p_x q \<le> p_x point))
   \<and> shoalingPath e2e_input \<noteq> []"
proof -
  have "\<exists>pre point post. sortedPath e2e_input = pre @ point # post
          \<and> (\<forall>q\<in>set pre. \<not> (0 < p_h q \<and> GAMMA_B \<le> p_H q / p_h q))
          \<and> 0 < p_h point \<and> GAMMA_B \<le> p_H point / p_h point
          \<and> \<lparr>bp_x = 50, bp_h = 1.0, bp_H = 0.9, bp_c = 5\<rparr> = \<lparr>bp_x = p_x point, bp_h = p_h point, bp_H = p_H point,
                   bp_c = js_or (p_c point) 10.0\<rparr>
          \<and> (\<forall>q\<in>set (shoalingPath e2e_input).
                0 < p_h q \<and> GAMMA_B \<le> p_H q / p_h q \<longrightarrow> p_x q \<le> p_x point)"
    using breaking_point_first_qualifying [of e2e_input] by (simp add: e2e_bp)
  then obtain pre point post where "sortedPath e2e_input = pre @ point # post
          \<and> (\<forall>q\<in>set pre. \<not> (0 < p_h q \<and> GAMMA_B \<le> p_H q / p_h q))
          \<and> 0 < p_h point \<and> GAMMA_B \<le> p_H point / p_h point
          \<and> p_x point = 50
          \<and> (\<forall>q\<in>set (shoalingPath e2e_input).
                0 < p_h q \<and> GAMMA_B \<le> p_H q / p_h q \<longrightarrow> p_x q \<le> p_x point)"
    by auto
  then have "\<exists>pre point post. sortedPath e2e_input = pre @ point # post
          \<and> (\<forall>q\<in>set pre. \<not> (0 < p_h q \<and> GAMMA_B \<le> p_H q / p_h q))
          \<and> 0 < p_h point \<and> GAMMA_B \<le> p_H point / p_h point
          \<and> p_x point = 50
          \<and> (\<forall>q\<in>set (shoalingPath e2e_input).
                0 < p_h q \<and> GAMMA_B \<le> p_H q / p_h q \<longrightarrow> p_x q \<le> p_x point)" by blast
  moreover have "shoalingPath e2e_input \<noteq> []" by (simp add: e2e_input_def e2e_samples_def)
  ultimately show ?thesis using e2e_bp by simp
qed

section \<open>Interpolation\<close>

lemma closestAfter_snoc:
  "closestAfter (xs @ [p]) d = after_step d (closestAfter xs d) p"
  by (simp add: closestAfter_def)

lemma closestBefore_snoc:
  "closestBefore (xs @ [p]) d = before_step d (closestBefore xs d) p"
  by (simp add: closestBefore_def)

lemma closestAfter_char:
  "(closestAfter path d = None \<longrightarrow> (\<forall>p\<in>set path. d < p_x p))
   \<and> (\<forall>a. closestAfter path d = Some a \<longrightarrow>
          a \<in> set path \<and> p_x a \<le> d \<and> (\<forall>p\<in>set path. p_x p \<le> d \<longrightarrow> p_x p \<le> p_x a))"
proof (induction path rule: rev_induct)
  case Nil
  then show ?case by (simp add: closestAfter_def)
next
  case (snoc p xs)
  show ?case
  proof (cases "closestAfter xs d")
    case None
    with snoc show ?thesis
      by (auto simp: closestAfter_snoc after_step_def)
  next
    case (Some a0)
    with snoc show ?thesis
      by (auto simp: closestAfter_snoc after_step_def)
  qed
qed

lemma closestBefore_weak:
  "(closestBefore path d = None \<longrightarrow> (\<forall>p\<in>set path. p_x p < d))
   \<and> (\<forall>b. closestBefore path d = Some b \<longrightarrow> b \<in> set path \<and> d \<le> p_x b)"
proof (induction path rule: rev_induct)
  case Nil
  then show ?case by (simp add: closestBefore_def)
next
  case (snoc p xs)
  show ?case
  proof (cases "closestBefore xs d")
    case None
    with snoc show ?thesis
      by (auto simp: closestBefore_snoc before_step_def)
  next
    case (Some b0)
    with snoc show ?thesis
      by (auto simp: closestBefore_snoc before_step_def lt_or_Infinity_def)
  qed
qed

lemma closestBefore_min:
  "\<forall>p\<in>set path. d \<le> p_x p \<longrightarrow> p_x p \<noteq> 0 \<Longrightarrow> closestBefore path d = Some b \<Longrightarrow>
     \<forall>p\<in>set path. d \<le> p_x p \<longrightarrow> p_x b \<le> p_x p"
proof (induction path arbitrary: b rule: rev_induct)
  case Nil
  then show ?case by simp
next
  case (snoc p xs)
  have nz: "\<forall>q\<in>set xs. d \<le> p_x q \<longrightarrow> p_x q \<noteq> 0" using snoc.prems(1) by simp
  show ?case
  proof (cases "closestBefore xs d")
    case None
    then have "\<forall>q\<in>set xs. p_x q < d" using closestBefore_weak [of xs d] by simp
    with snoc.prems(2) None show ?thesis
      by (auto simp: closestBefore_snoc before_step_def split: if_splits)
  next
    case (Some b0)
    have IH: "\<forall>q\<in>set xs. d \<le> p_x q \<longrightarrow> p_x b0 \<le> p_x q" using snoc.IH [OF nz Some] .
    have b0: "b0 \<in> set xs" "d \<le> p_x b0" using closestBefore_weak [of xs d] Some by auto
    then have "p_x b0 \<noteq> 0" using nz by blast
    with snoc.prems(2) Some IH show ?thesis
      by (auto simp: closestBefore_snoc before_step_def lt_or_Infinity_def split: if_splits)
  qed
qed


lemma h_interp_field: "h_interp path d = field_value p_h (max 0 (d * 0.03)) d (branch_of path d)"
  by (simp add: h_interp_def field_value_def split: interp_branch.splits)

lemma H_surf_field:
  "H_surf path d = (if path \<noteq> [] \<and> 0 \<le> d then field_value p_H 0 d (branch_of path d) else 0)"
  by (simp add: H_surf_def H_surf_c_def field_value_def split: interp_branch.splits)

lemma H_surf_m_field:
  "fst (H_surf_m_c path d) = (if path \<noteq> [] then field_value p_H 0 d (branch_of path d) else 0)"
  by (simp add: H_surf_m_c_def field_value_def split: interp_branch.splits)

lemma branch_Interpolate_divisor:
  "branch_of path d = Interpolate b a \<Longrightarrow> interp_divisor b a \<noteq> 0"
  by (auto simp: branch_of_def interp_divisor_def split: option.splits if_splits)

lemma branch_coincide:
  "closestBefore path d = Some b \<Longrightarrow> closestAfter path d = Some a \<Longrightarrow> p_x b = p_x a \<Longrightarrow>
     branch_of path d = UseBefore b"
  by (simp add: branch_of_def)

lemma field_exact:
  assumes p: "p \<in> set path" and same: "\<forall>q\<in>set path. p_x q = p_x p \<longrightarrow> f q = f p"
  shows "field_value f dflt (p_x p) (branch_of path (p_x p)) = f p"
proof -
  obtain a where a: "closestAfter path (p_x p) = Some a"
    using closestAfter_char [of path "p_x p"] p by (cases "closestAfter path (p_x p)") auto
  obtain b where b: "closestBefore path (p_x p) = Some b"
    using closestBefore_weak [of path "p_x p"] p by (cases "closestBefore path (p_x p)") auto
  have a': "a \<in> set path" "p_x a = p_x p"
    using closestAfter_char [of path "p_x p"] a p by (auto intro: antisym)
  have b': "b \<in> set path" using closestBefore_weak [of path "p_x p"] b by auto
  show ?thesis
  proof (cases "p_x b = p_x a")
    case True
    then have "f b = f p" using same a' b' by simp
    with True a b show ?thesis by (simp add: branch_of_def field_value_def)
  next
    case False
    have "f a = f p" using same a' by simp
    with False a b a' show ?thesis
      by (simp add: branch_of_def field_value_def interp_t_def)
  qed
qed

lemma field_linear:
  assumes p1: "p1 \<in> set path" and p2: "p2 \<in> set path"
    and lt: "p_x p1 < p_x p2" and d: "p_x p1 \<le> d" "d \<le> p_x p2" "0 \<le> d"
    and gap: "\<forall>q\<in>set path. \<not> (p_x p1 < p_x q \<and> p_x q < p_x p2)"
    and same: "\<forall>q\<in>set path. (p_x q = p_x p1 \<longrightarrow> f q = f p1) \<and> (p_x q = p_x p2 \<longrightarrow> f q = f p2)"
  shows "field_value f dflt d (branch_of path d)
         = f p1 + (f p2 - f p1) * (d - p_x p1) / (p_x p2 - p_x p1)"
proof -
  consider "d = p_x p1" | "d = p_x p2" | "p_x p1 < d" "d < p_x p2" using d by linarith
  then show ?thesis
  proof cases
    case 1
    have "field_value f dflt (p_x p1) (branch_of path (p_x p1)) = f p1"
      using field_exact [OF p1, of f dflt] same by blast
    with 1 show ?thesis by simp
  next
    case 2
    have "field_value f dflt (p_x p2) (branch_of path (p_x p2)) = f p2"
      using field_exact [OF p2, of f dflt] same by blast
    with 2 lt show ?thesis by simp
  next
    case 3
    obtain a where a: "closestAfter path d = Some a"
      using closestAfter_char [of path d] p1 d by (cases "closestAfter path d") auto
    obtain b where b: "closestBefore path d = Some b"
      using closestBefore_weak [of path d] p2 d by (cases "closestBefore path d") auto
    have a1: "a \<in> set path" "p_x a \<le> d" "p_x p1 \<le> p_x a"
      using closestAfter_char [of path d] a p1 d by auto
    have xa: "p_x a = p_x p1" using a1 gap 3 by (meson leD le_less_trans not_le_imp_less antisym)
    have nz: "\<forall>p\<in>set path. d \<le> p_x p \<longrightarrow> p_x p \<noteq> 0"
    proof (intro ballI impI)
      fix p assume "p \<in> set path" "d \<le> p_x p"
      with gap 3 d show "p_x p \<noteq> 0" by (metis le_less_trans not_le order.order_iff_strict)
    qed
    have b1: "b \<in> set path" "d \<le> p_x b" using closestBefore_weak [of path d] b by auto
    have b2: "p_x b \<le> p_x p2" using closestBefore_min [OF nz b] p2 d by blast
    have xb: "p_x b = p_x p2" using b1 b2 gap 3 by (meson leD le_less_trans less_le_trans not_le_imp_less antisym)
    have fa: "f a = f p1" and fb: "f b = f p2" using same a1 b1 xa xb by auto
    have "branch_of path d = Interpolate b a" using a b xa xb lt by (simp add: branch_of_def)
    then show ?thesis
      by (simp add: field_value_def interp_t_def interp_divisor_def xa xb fa fb)
  qed
qed

lemma only_after:
  assumes "path \<noteq> []" and "\<forall>p\<in>set path. p_x p < d"
  shows "\<exists>a\<in>set path. (\<forall>p\<in>set path. p_x p \<le> p_x a) \<and> branch_of path d = UseAfter a"
proof -
  have cb: "closestBefore path d = None"
    using closestBefore_weak [of path d] assms(2) by (cases "closestBefore path d") fastforce+
  obtain p0 where "p0 \<in> set path" using assms(1) by (cases path) auto
  then obtain a where a: "closestAfter path d = Some a"
    using closestAfter_char [of path d] assms(2) by (cases "closestAfter path d") fastforce+
  have "a \<in> set path" "\<forall>p\<in>set path. p_x p \<le> p_x a"
    using closestAfter_char [of path d] a assms(2) by (auto simp: less_imp_le)
  with cb a show ?thesis by (auto simp: branch_of_def)
qed

lemma only_before:
  assumes "path \<noteq> []" and "\<forall>p\<in>set path. d < p_x p" and "0 \<le> d"
  shows "\<exists>b\<in>set path. (\<forall>p\<in>set path. p_x b \<le> p_x p) \<and> branch_of path d = UseBefore b"
proof -
  have ca: "closestAfter path d = None"
    using closestAfter_char [of path d] assms(2) by (cases "closestAfter path d") fastforce+
  obtain p0 where "p0 \<in> set path" using assms(1) by (cases path) auto
  then obtain b where b: "closestBefore path d = Some b"
    using closestBefore_weak [of path d] assms(2) by (cases "closestBefore path d") fastforce+
  have nz: "\<forall>p\<in>set path. d \<le> p_x p \<longrightarrow> p_x p \<noteq> 0" using assms(2,3) by fastforce
  have "b \<in> set path" using closestBefore_weak [of path d] b by auto
  moreover have "\<forall>p\<in>set path. p_x b \<le> p_x p"
    using closestBefore_min [OF nz b] assms(2) by (auto simp: less_imp_le)
  ultimately show ?thesis using ca b by (auto simp: branch_of_def)
qed


text \<open>
  Claim C3.  Depth (\<open>h_interp\<close>) and envelope wave height (\<open>H_surf\<close>) at a target
  distance \<open>d \<ge> 0\<close>.  (1) Between two bounding samples p1, p2 at distinct distances
  d1 < d2 with d1 \<le> d \<le> d2, no sample strictly between them and every sample at d1 or d2
  carrying the same values, the result is v1 + (v2 - v1) (d - d1) / (d2 - d1).  (2) At the
  distance of a sample whose duplicates agree with it, the result is that sample's value.
  (3) When both bounds are found at one distance, the second branch is taken and the
  result is the value of the bound; the dividing branch is only taken with a divisor
  other than 0.  (4) When every sample is closer to shore than d, the result is the value
  of the farthest sample; when every sample is farther than d, that of the nearest.
  \<open>H_surf\<close> is 0 by its guard at negative distances, hence the side conditions \<open>0 \<le> d\<close>.
\<close>

theorem interpolation_linear_and_exact:
  "(\<forall>p1\<in>set path. \<forall>p2\<in>set path.
      p_x p1 < p_x p2 \<and> p_x p1 \<le> d \<and> d \<le> p_x p2 \<and> 0 \<le> d
      \<and> (\<forall>q\<in>set path. \<not> (p_x p1 < p_x q \<and> p_x q < p_x p2))
      \<and> (\<forall>q\<in>set path. (p_x q = p_x p1 \<longrightarrow> p_h q = p_h p1 \<and> p_H q = p_H p1)
                        \<and> (p_x q = p_x p2 \<longrightarrow> p_h q = p_h p2 \<and> p_H q = p_H p2))
      \<longrightarrow> h_interp path d = p_h p1 + (p_h p2 - p_h p1) * (d - p_x p1) / (p_x p2 - p_x p1)
        \<and> H_surf path d = p_H p1 + (p_H p2 - p_H p1) * (d - p_x p1) / (p_x p2 - p_x p1))
   \<and> (\<forall>p\<in>set path.
        (\<forall>q\<in>set path. p_x q = p_x p \<longrightarrow> p_h q = p_h p \<and> p_H q = p_H p)
        \<longrightarrow> h_interp path (p_x p) = p_h p \<and> (0 \<le> p_x p \<longrightarrow> H_surf path (p_x p) = p_H p))
   \<and> (\<forall>b a. closestBefore path d = Some b \<and> closestAfter path d = Some a \<and> p_x b = p_x a
        \<longrightarrow> branch_of path d = UseBefore b \<and> h_interp path d = p_h b
          \<and> (0 \<le> d \<longrightarrow> H_surf path d = p_H b))
   \<and> (\<forall>b a. branch_of path d = Interpolate b a \<longrightarrow> interp_divisor b a \<noteq> 0)
   \<and> (path \<noteq> [] \<and> (\<forall>p\<in>set path. p_x p < d)
        \<longrightarrow> (\<exists>a\<in>set path. (\<forall>p\<in>set path. p_x p \<le> p_x a) \<and> h_interp path d = p_h a
               \<and> (0 \<le> d \<longrightarrow> H_surf path d = p_H a)))
   \<and> (path \<noteq> [] \<and> (\<forall>p\<in>set path. d < p_x p) \<and> 0 \<le> d
        \<longrightarrow> (\<exists>b\<in>set path. (\<forall>p\<in>set path. p_x b \<le> p_x p) \<and> h_interp path d = p_h b
               \<and> H_surf path d = p_H b))"
proof (intro conjI ballI allI impI)
  fix p1 p2
  assume p: "p1 \<in> set path" "p2 \<in> set path"
    and h: "p_x p1 < p_x p2 \<and> p_x p1 \<le> d \<and> d \<le> p_x p2 \<and> 0 \<le> d
      \<and> (\<forall>q\<in>set path. \<not> (p_x p1 < p_x q \<and> p_x q < p_x p2))
      \<and> (\<forall>q\<in>set path. (p_x q = p_x p1 \<longrightarrow> p_h q = p_h p1 \<and> p_H q = p_H p1)
                        \<and> (p_x q = p_x p2 \<longrightarrow> p_h q = p_h p2 \<and> p_H q = p_H p2))"
  have ne: "path \<noteq> []" using p by auto
  have sh: "\<forall>q\<in>set path. (p_x q = p_x p1 \<longrightarrow> p_h q = p_h p1) \<and> (p_x q = p_x p2 \<longrightarrow> p_h q = p_h p2)"
    and sH: "\<forall>q\<in>set path. (p_x q = p_x p1 \<longrightarrow> p_H q = p_H p1) \<and> (p_x q = p_x p2 \<longrightarrow> p_H q = p_H p2)"
    using h by auto
  from h have g: "p_x p1 < p_x p2" "p_x p1 \<le> d" "d \<le> p_x p2" "0 \<le> d"
      "\<forall>q\<in>set path. \<not> (p_x p1 < p_x q \<and> p_x q < p_x p2)" by auto
  show "h_interp path d = p_h p1 + (p_h p2 - p_h p1) * (d - p_x p1) / (p_x p2 - p_x p1)"
    using field_linear [OF p g sh] by (simp add: h_interp_field)
  show "H_surf path d = p_H p1 + (p_H p2 - p_H p1) * (d - p_x p1) / (p_x p2 - p_x p1)"
    using field_linear [OF p g sH] ne g(4) by (simp add: H_surf_field)
next
  fix p
  assume p: "p \<in> set path"
    and same: "\<forall>q\<in>set path. p_x q = p_x p \<longrightarrow> p_h q = p_h p \<and> p_H q = p_H p"
  have sh: "\<forall>q\<in>set path. p_x q = p_x p \<longrightarrow> p_h q = p_h p"
    and sH: "\<forall>q\<in>set path. p_x q = p_x p \<longrightarrow> p_H q = p_H p" using same by auto
  show "h_interp path (p_x p) = p_h p"
    using field_exact [OF p sh] by (simp add: h_interp_field)
  have ne: "path \<noteq> []" using p by auto
  assume "0 \<le> p_x p"
  then show "H_surf path (p_x p) = p_H p"
    using field_exact [OF p sH] ne by (simp add: H_surf_field)
next
  fix b a
  assume h: "closestBefore path d = Some b \<and> closestAfter path d = Some a \<and> p_x b = p_x a"
  then show br: "branch_of path d = UseBefore b" by (simp add: branch_coincide)
  then show "h_interp path d = p_h b" by (simp add: h_interp_def)
  have "path \<noteq> []" using h by (auto simp: closestBefore_def)
  moreover assume "0 \<le> d"
  ultimately show "H_surf path d = p_H b" using br by (simp add: H_surf_def H_surf_c_def)
next
  fix b a
  assume "branch_of path d = Interpolate b a"
  then show "interp_divisor b a \<noteq> 0" by (rule branch_Interpolate_divisor)
next
  assume h: "path \<noteq> [] \<and> (\<forall>p\<in>set path. p_x p < d)"
  then obtain a where a: "a \<in> set path" "\<forall>p\<in>set path. p_x p \<le> p_x a" "branch_of path d = UseAfter a"
    using only_after [of path d] by blast
  have "h_interp path d = p_h a" using a(3) by (simp add: h_interp_def)
  moreover have "0 \<le> d \<longrightarrow> H_surf path d = p_H a"
    using a(3) h by (simp add: H_surf_def H_surf_c_def)
  ultimately show "\<exists>a\<in>set path. (\<forall>p\<in>set path. p_x p \<le> p_x a) \<and> h_interp path d = p_h a
               \<and> (0 \<le> d \<longrightarrow> H_surf path d = p_H a)" using a(1,2) by blast
next
  assume h: "path \<noteq> [] \<and> (\<forall>p\<in>set path. d < p_x p) \<and> 0 \<le> d"
  then obtain b where b: "b \<in> set path" "\<forall>p\<in>set path. p_x b \<le> p_x p" "branch_of path d = UseBefore b"
    using only_before [of path d] by blast
  have "h_interp path d = p_h b" using b(3) by (simp add: h_interp_def)
  moreover have "H_surf path d = p_H b"
    using b(3) h by (simp add: H_surf_def H_surf_c_def)
  ultimately show "\<exists>b\<in>set path. (\<forall>p\<in>set path. p_x b \<le> p_x p) \<and> h_interp path d = p_h b
               \<and> H_surf path d = p_H b" using b(1,2) by blast
qed

theorem interpolation_linear_and_exact_witness:
  "h_interp e2e_samples 100 = 1 + (5 - 1) * (100 - 50) / (200 - 50)
   \<and> H_surf e2e_samples 100 = 0.9 + (1.0 - 0.9) * (100 - 50) / (200 - 50)
   \<and> h_interp e2e_samples 50 = 1 \<and> H_surf e2e_samples 50 = 0.9
   \<and> h_interp e2e_samples 300 = 5 \<and> H_surf e2e_samples 300 = 1"
proof -
  let ?s50 = "\<lparr>p_x = 50, p_h = 1.0, p_H = 0.9, p_c = 5\<rparr>"
  let ?s200 = "\<lparr>p_x = 200, p_h = 5, p_H = 1.0, p_c = 8\<rparr>"
  note T = interpolation_linear_and_exact [of e2e_samples 100]
  have lin: "\<forall>p1\<in>set e2e_samples. \<forall>p2\<in>set e2e_samples.
      p_x p1 < p_x p2 \<and> p_x p1 \<le> 100 \<and> 100 \<le> p_x p2 \<and> (0::real) \<le> 100
      \<and> (\<forall>q\<in>set e2e_samples. \<not> (p_x p1 < p_x q \<and> p_x q < p_x p2))
      \<and> (\<forall>q\<in>set e2e_samples. (p_x q = p_x p1 \<longrightarrow> p_h q = p_h p1 \<and> p_H q = p_H p1)
                        \<and> (p_x q = p_x p2 \<longrightarrow> p_h q = p_h p2 \<and> p_H q = p_H p2))
      \<longrightarrow> h_interp e2e_samples 100 = p_h p1 + (p_h p2 - p_h p1) * (100 - p_x p1) / (p_x p2 - p_x p1)
        \<and> H_surf e2e_samples 100 = p_H p1 + (p_H p2 - p_H p1) * (100 - p_x p1) / (p_x p2 - p_x p1)"
    using T by (rule conjunct1)
  have m1: "?s50 \<in> set e2e_samples" and m2: "?s200 \<in> set e2e_samples"
    by (simp_all add: e2e_samples_def)
  have A: "h_interp e2e_samples 100 = 1 + (5 - 1) * (100 - 50) / (200 - 50)
     \<and> H_surf e2e_samples 100 = 0.9 + (1.0 - 0.9) * (100 - 50) / (200 - 50)"
    using bspec [OF bspec [OF lin m1] m2] by (simp add: e2e_samples_def)
  have ex: "\<forall>p\<in>set e2e_samples.
        (\<forall>q\<in>set e2e_samples. p_x q = p_x p \<longrightarrow> p_h q = p_h p \<and> p_H q = p_H p)
        \<longrightarrow> h_interp e2e_samples (p_x p) = p_h p \<and> (0 \<le> p_x p \<longrightarrow> H_surf e2e_samples (p_x p) = p_H p)"
    using T by blast
  have B: "h_interp e2e_samples 50 = 1 \<and> H_surf e2e_samples 50 = 0.9"
    using bspec [OF ex m1] by (simp add: e2e_samples_def)
  have "e2e_samples \<noteq> [] \<and> (\<forall>p\<in>set e2e_samples. p_x p < 300)
        \<longrightarrow> (\<exists>a\<in>set e2e_samples. (\<forall>p\<in>set e2e_samples. p_x p \<le> p_x a) \<and> h_interp e2e_samples 300 = p_h a
               \<and> ((0::real) \<le> 300 \<longrightarrow> H_surf e2e_samples 300 = p_H a))"
    using interpolation_linear_and_exact [of e2e_samples 300] by blast
  then have C: "h_interp e2e_samples 300 = 5 \<and> H_surf e2e_samples 300 = 1"
    by (simp add: e2e_samples_def)
  show ?thesis using A B C by blast
qed

section \<open>The breaking point as a sample, and the mean speed\<close>

lemma foldl_add_sum_list:
  "foldl (\<lambda>sum p. sum + g p) a xs = a + sum_list (map g xs)"
  by (induction xs arbitrary: a) (simp_all add: add.assoc)

lemma avgC_mean:
  "avgC path = sum_list (map (\<lambda>p. js_or (p_c p) 10.0) path) / real (length path)"
  by (simp add: avgC_def foldl_add_sum_list)

lemma breaking_point_sample:
  assumes "breakingPointFromPhysics inp = Some bp"
  shows "\<exists>point\<in>set (shoalingPath inp). 0 < p_h point \<and> GAMMA_B \<le> p_H point / p_h point
     \<and> bp = \<lparr>bp_x = p_x point, bp_h = p_h point, bp_H = p_H point, bp_c = js_or (p_c point) 10.0\<rparr>"
proof -
  from assms have "breaking_scan (sortedPath inp) = Some bp"
    by (simp add: breakingPointFromPhysics_def split: if_splits)
  from breaking_scan_Some [OF this] obtain pre point post where
    h: "sortedPath inp = pre @ point # post" "0 < p_h point" "GAMMA_B \<le> p_H point / p_h point"
      "bp = \<lparr>bp_x = p_x point, bp_h = p_h point, bp_H = p_H point, bp_c = js_or (p_c point) 10.0\<rparr>"
    by blast
  have "point \<in> set (sortedPath inp)" using h(1) by simp
  then have "point \<in> set (shoalingPath inp)" by (simp add: sortedPath_set)
  with h show ?thesis by blast
qed

lemma js_or_10_nonzero: "js_or v 10.0 \<noteq> 0"
  by (simp add: js_or_def)

lemma breaking_point_c_nonzero:
  "breakingPointFromPhysics inp = Some bp \<Longrightarrow> bp_c bp \<noteq> 0"
  using breaking_point_sample [of inp bp] js_or_10_nonzero by auto

section \<open>Domains of bathymetry and envelope\<close>

lemma set_sort_desc [simp]: "set (sort_desc f xs) = set xs"
  by (simp add: sort_desc_def)

lemma set_sort_asc [simp]: "set (sort_asc f xs) = set xs"
  by (simp add: sort_asc_def)

lemma sorted_sort_asc: "sorted (map f (sort_asc f xs))"
  by (simp add: sort_asc_def)

lemma convertDistance_zero [simp]: "convertDistance u 0 = 0"
  by (simp add: convertDistance_def)

lemma convertDistance_mono: "convertDistance u a \<le> convertDistance u b \<longleftrightarrow> a \<le> b"
  by (simp add: convertDistance_def)

lemma convertDistance_inj: "convertDistance u a = convertDistance u b \<longleftrightarrow> a = b"
  by (simp add: convertDistance_def)

lemma MAX_DISTANCE_nonneg: "0 \<le> MAX_DISTANCE inp"
  by (simp add: MAX_DISTANCE_def MAX_DISTANCE_M_def convertDistance_def)

lemma bathymetry_grid:
  assumes "i \<le> 20"
  shows "\<exists>b\<in>set (bathymetryFromPhysics inp). b_x b = (real i / 20) * MAX_DISTANCE_M"
proof -
  have i: "i \<in> set [0..<Suc 20]" using assms by simp
  show ?thesis
  proof (cases "shoalingPath inp = []")
    case True
    let ?g = "\<lambda>i. let x_m = (real i / 20) * MAX_DISTANCE_M in
                   \<lparr>b_x = x_m, b_h = max 0 (x_m * 0.03 + (case tide_level_m inp of None \<Rightarrow> 0 | Some l \<Rightarrow> l))\<rparr>"
    have "?g i \<in> set (bathymetryFromPhysics inp)"
      using True i by (auto simp add: bathymetryFromPhysics_def Let_def simp del: upt_Suc set_upt)
    moreover have "b_x (?g i) = (real i / 20) * MAX_DISTANCE_M" by (simp add: Let_def)
    ultimately show ?thesis by blast
  next
    case False
    let ?g = "\<lambda>i. let x_m = (real i / real numBathyPoints) * MAX_DISTANCE_M in
                  \<lparr>b_x = x_m, b_h = h_interp (shoalingPath inp) x_m\<rparr>"
    have "i \<in> set [0..<Suc numBathyPoints]" using assms by (simp add: numBathyPoints_def)
    then have "?g i \<in> set (bathymetryFromPhysics inp)"
      using False by (auto simp add: bathymetryFromPhysics_def Let_def simp del: upt_Suc set_upt)
    moreover have "b_x (?g i) = (real i / 20) * MAX_DISTANCE_M"
      by (simp add: Let_def numBathyPoints_def)
    ultimately show ?thesis by blast
  qed
qed

lemma visMeters_of_bathy:
  assumes "b \<in> set (bathymetryFromPhysics inp)"
  shows "\<exists>d\<in>set (visualizationDataMeters inp). v_x d = b_x b"
proof -
  let ?g = "\<lambda>bathPoint.
                   let x_m = b_x bathPoint;
                       H = H_surf (shoalingPath inp) x_m in
                   \<lparr>v_x = b_x bathPoint, bathymetryY = b_h bathPoint,
                     waveCrestY = (if H > 0 then Some (- H / 2) else None),
                     waveTroughY = (if H > 0 then Some (H / 2) else None),
                     waterSurfaceY = 0\<rparr>"
  have "?g b \<in> set (visualizationDataMeters inp)"
    using assms by (auto simp: visualizationDataMeters_def Let_def)
  moreover have "v_x (?g b) = b_x b" by (simp add: Let_def)
  ultimately show ?thesis by blast
qed

lemma vis_of_visMeters:
  assumes "d \<in> set (visualizationDataMeters inp)"
    and "MIN_DISTANCE_M \<le> v_x d" and "v_x d \<le> MAX_DISTANCE_M"
  shows "\<exists>e\<in>set (visualizationData inp). v_x e = convertDistance (units inp) (v_x d)"
  using assms
  by (auto simp: visualizationData_def MIN_DISTANCE_def MAX_DISTANCE_def convertDistance_mono
       intro!: bexI [of _ d])

lemma vis_window:
  "e \<in> set (visualizationData inp) \<Longrightarrow> MIN_DISTANCE inp \<le> v_x e \<and> v_x e \<le> MAX_DISTANCE inp"
  by (auto simp: visualizationData_def)

lemma vis_has_grid:
  assumes "i \<le> 20"
  shows "\<exists>e\<in>set (visualizationData inp).
           v_x e = convertDistance (units inp) ((real i / 20) * MAX_DISTANCE_M)"
proof -
  obtain b where b: "b \<in> set (bathymetryFromPhysics inp)" "b_x b = (real i / 20) * MAX_DISTANCE_M"
    using bathymetry_grid [OF assms] by blast
  obtain d where d: "d \<in> set (visualizationDataMeters inp)" "v_x d = b_x b"
    using visMeters_of_bathy [OF b(1)] by blast
  have "real i / 20 \<le> 1" "0 \<le> real i / 20" using assms by simp_all
  then have "MIN_DISTANCE_M \<le> v_x d" "v_x d \<le> MAX_DISTANCE_M"
    using d(2) b(2) by (simp_all add: MIN_DISTANCE_M_def MAX_DISTANCE_M_def)
  from vis_of_visMeters [OF d(1) this] d(2) b(2) show ?thesis by simp
qed

lemma vis_has_shore: "\<exists>e\<in>set (visualizationData inp). v_x e = 0"
  using vis_has_grid [of 0 inp] by simp

lemma vis_has_max: "\<exists>e\<in>set (visualizationData inp). v_x e = MAX_DISTANCE inp"
  using vis_has_grid [of 20 inp] by (simp add: MAX_DISTANCE_def)

lemma shorePoint_found:
  "\<exists>sp. shorePoint inp = Some sp \<and> sp \<in> set (visualizationData inp) \<and> \<bar>v_x sp\<bar> < 0.01"
proof -
  obtain e where e: "e \<in> set (visualizationData inp)" "v_x e = 0" using vis_has_shore by blast
  then have "List.find (\<lambda>d. \<bar>v_x d\<bar> < 0.01) (visualizationData inp) \<noteq> None"
    by (auto simp: find_None_iff)
  then obtain sp where sp: "List.find (\<lambda>d. \<bar>v_x d\<bar> < 0.01) (visualizationData inp) = Some sp"
    by blast
  then have "sp \<in> set (visualizationData inp) \<and> \<bar>v_x sp\<bar> < 0.01"
    by (auto simp: find_Some_iff)
  with sp show ?thesis by (simp add: shorePoint_def)
qed

lemma bathymetryData_eq:
  "bathymetryData inp =
     Some (sort_asc v_x (filter (\<lambda>d. v_x d \<ge> 0 \<and> v_x d \<le> MAX_DISTANCE inp) (visualizationData inp)))"
proof -
  obtain sp where sp: "shorePoint inp = Some sp" using shorePoint_found by blast
  obtain e where e: "e \<in> set (visualizationData inp)" "v_x e = 0" using vis_has_shore by blast
  have "list_ex (\<lambda>d. \<bar>v_x d\<bar> < 0.01)
          (filter (\<lambda>d. v_x d \<ge> 0 \<and> v_x d \<le> MAX_DISTANCE inp) (visualizationData inp))"
    using e MAX_DISTANCE_nonneg [of inp] by (auto simp: list_ex_iff)
  with sp show ?thesis by (simp add: bathymetryData_def Let_def)
qed

lemma waveEnvelopeData_eq:
  "waveEnvelopeData inp =
     Some (sort_asc v_x
       (filter (\<lambda>d. if breakingDistDisplay inp \<le> 0
                                   then v_x d \<ge> 0 \<and> v_x d \<le> MAX_DISTANCE inp
                                   else v_x d \<ge> 0 \<and> v_x d \<le> breakingDistDisplay inp)
           (visualizationData inp)))"
proof -
  obtain sp where sp: "shorePoint inp = Some sp" using shorePoint_found by blast
  obtain e where e: "e \<in> set (visualizationData inp)" "v_x e = 0" using vis_has_shore by blast
  have "list_ex (\<lambda>d. \<bar>v_x d\<bar> < 0.01)
          (filter (\<lambda>d. if breakingDistDisplay inp \<le> 0
                                   then v_x d \<ge> 0 \<and> v_x d \<le> MAX_DISTANCE inp
                                   else v_x d \<ge> 0 \<and> v_x d \<le> breakingDistDisplay inp) (visualizationData inp))"
    using e MAX_DISTANCE_nonneg [of inp] by (auto simp: list_ex_iff)
  with sp show ?thesis by (simp add: waveEnvelopeData_def Let_def)
qed


lemma breakingDistM_of_bp:
  "breakingPointFromPhysics inp = Some bp \<Longrightarrow> bp_x bp \<noteq> 0 \<Longrightarrow> breakingDistM inp = bp_x bp"
  by (simp add: breakingDistM_def js_or_opt_def js_or_def)

lemma breakingDistDisplay_pos:
  "0 < breakingDistM inp \<Longrightarrow>
     breakingDistDisplay inp = convertDistance (units inp) (breakingDistM inp)"
  by (simp add: breakingDistDisplay_def)

text \<open>
  Claim C6, amended.  Both sequences are always produced, and every envelope point is a
  bathymetry point.  The envelope's distances lie in \<open>[0, breakingDistDisplay]\<close> when
  that display distance is positive, and in \<open>[0, MAX_DISTANCE]\<close> otherwise; it is the
  converted breaking distance in use whenever that distance is positive, and the distance
  in use is the detected one whenever a breaking point is detected at a distance other
  than 0.  The bathymetry's distances lie in \<open>[0, MAX_DISTANCE]\<close> and include both ends.
\<close>

theorem envelope_within_bathymetry:
  "(\<exists>bs ws. bathymetryData inp = Some bs \<and> waveEnvelopeData inp = Some ws
      \<and> set ws \<subseteq> set bs
      \<and> (\<forall>d\<in>set ws. 0 \<le> v_x d
            \<and> v_x d \<le> (if 0 < breakingDistDisplay inp then breakingDistDisplay inp
                         else MAX_DISTANCE inp))
      \<and> (\<forall>d\<in>set bs. 0 \<le> v_x d \<and> v_x d \<le> MAX_DISTANCE inp)
      \<and> (\<exists>d\<in>set bs. v_x d = 0) \<and> (\<exists>d\<in>set bs. v_x d = MAX_DISTANCE inp))
   \<and> (0 < breakingDistM inp \<longrightarrow>
         breakingDistDisplay inp = convertDistance (units inp) (breakingDistM inp))
   \<and> (\<forall>bp. breakingPointFromPhysics inp = Some bp \<and> bp_x bp \<noteq> 0 \<longrightarrow>
         breakingDistM inp = bp_x bp)"
proof -
  let ?V = "visualizationData inp"
  let ?bs = "sort_asc v_x (filter (\<lambda>d. v_x d \<ge> 0 \<and> v_x d \<le> MAX_DISTANCE inp) ?V)"
  let ?ws = "sort_asc v_x
       (filter (\<lambda>d. if breakingDistDisplay inp \<le> 0
                                   then v_x d \<ge> 0 \<and> v_x d \<le> MAX_DISTANCE inp
                                   else v_x d \<ge> 0 \<and> v_x d \<le> breakingDistDisplay inp) ?V)"
  have sub: "set ?ws \<subseteq> set ?bs"
    using vis_window [of _ inp] by (auto split: if_splits)
  have w: "\<forall>d\<in>set ?ws. 0 \<le> v_x d
            \<and> v_x d \<le> (if 0 < breakingDistDisplay inp then breakingDistDisplay inp
                         else MAX_DISTANCE inp)"
    by (auto split: if_splits)
  have b: "\<forall>d\<in>set ?bs. 0 \<le> v_x d \<and> v_x d \<le> MAX_DISTANCE inp" by auto
  have z: "\<exists>d\<in>set ?bs. v_x d = 0"
    using vis_has_shore [of inp] MAX_DISTANCE_nonneg [of inp] by auto
  have m: "\<exists>d\<in>set ?bs. v_x d = MAX_DISTANCE inp"
    using vis_has_max [of inp] MAX_DISTANCE_nonneg [of inp] by auto
  have first: "\<exists>bs ws. bathymetryData inp = Some bs \<and> waveEnvelopeData inp = Some ws
      \<and> set ws \<subseteq> set bs
      \<and> (\<forall>d\<in>set ws. 0 \<le> v_x d
            \<and> v_x d \<le> (if 0 < breakingDistDisplay inp then breakingDistDisplay inp
                         else MAX_DISTANCE inp))
      \<and> (\<forall>d\<in>set bs. 0 \<le> v_x d \<and> v_x d \<le> MAX_DISTANCE inp)
      \<and> (\<exists>d\<in>set bs. v_x d = 0) \<and> (\<exists>d\<in>set bs. v_x d = MAX_DISTANCE inp)"
    using bathymetryData_eq [of inp] waveEnvelopeData_eq [of inp] sub w b z m by blast
  show ?thesis using first breakingDistM_of_bp [of inp] breakingDistDisplay_pos [of inp] by blast
qed

lemma e2e_breakingDistM: "breakingDistM e2e_input = 50"
  using breakingDistM_of_bp [OF e2e_bp] by simp

theorem envelope_within_bathymetry_witness:
  "breakingDistM e2e_input = 50
   \<and> (\<exists>bs ws. bathymetryData e2e_input = Some bs \<and> waveEnvelopeData e2e_input = Some ws
      \<and> set ws \<subseteq> set bs
      \<and> (\<forall>d\<in>set ws. 0 \<le> v_x d \<and> v_x d \<le> 50)
      \<and> (\<forall>d\<in>set bs. 0 \<le> v_x d \<and> v_x d \<le> 152)
      \<and> (\<exists>d\<in>set bs. v_x d = 0) \<and> (\<exists>d\<in>set bs. v_x d = 152))"
proof -
  have d: "breakingDistDisplay e2e_input = 50"
    using breakingDistDisplay_pos [of e2e_input]
    by (simp add: e2e_breakingDistM) (simp add: e2e_input_def convertDistance_def)
  have mx: "MAX_DISTANCE e2e_input = 152"
    by (simp add: MAX_DISTANCE_def MAX_DISTANCE_M_def e2e_input_def convertDistance_def)
  show ?thesis
    using envelope_within_bathymetry [of e2e_input] by (simp add: d mx e2e_breakingDistM)
qed

lemma shore_break_only_bp:
  "breakingPointFromPhysics shore_break_only_input
     = Some \<lparr>bp_x = 0, bp_h = 1.0, bp_H = 0.9, bp_c = 5\<rparr>"
  by (simp add: breakingPointFromPhysics_def sortedPath_def sort_desc_def
      shore_break_only_input_def GAMMA_B_def js_or_def)

text \<open>
  Claim C6 as stated fails when the detected breaking point stands at distance 0 and no
  default is supplied: a breaking point exists, the breaking distance is 0, and the
  envelope still reaches the offshore end at 152 m.
\<close>

theorem envelope_past_shore_break:
  "breakingPointFromPhysics shore_break_only_input
     = Some \<lparr>bp_x = 0, bp_h = 1.0, bp_H = 0.9, bp_c = 5\<rparr>
   \<and> breakingDistM shore_break_only_input = 0
   \<and> (\<exists>ws. waveEnvelopeData shore_break_only_input = Some ws \<and> (\<exists>d\<in>set ws. v_x d = 152))"
proof -
  have dm: "breakingDistM shore_break_only_input = 0"
    by (simp add: breakingDistM_def shore_break_only_bp js_or_opt_def)
       (simp add: shore_break_only_input_def)
  have dd: "breakingDistDisplay shore_break_only_input = 0"
    by (simp add: breakingDistDisplay_def dm) (simp add: shore_break_only_input_def)
  have mx: "MAX_DISTANCE shore_break_only_input = 152"
    by (simp add: MAX_DISTANCE_def MAX_DISTANCE_M_def shore_break_only_input_def convertDistance_def)
  obtain e where "e \<in> set (visualizationData shore_break_only_input)" "v_x e = 152"
    using vis_has_max [of shore_break_only_input] mx by auto
  then have "\<exists>ws. waveEnvelopeData shore_break_only_input = Some ws \<and> (\<exists>d\<in>set ws. v_x d = 152)"
    using waveEnvelopeData_eq [of shore_break_only_input] by (auto simp: dd mx)
  with dm shore_break_only_bp show ?thesis by simp
qed

section \<open>Ordering of the outputs\<close>

lemma upt_first_two: "[0..<Suc numPoints] = 0 # Suc 0 # [Suc (Suc 0)..<Suc numPoints]"
proof -
  have "[0..<Suc numPoints] = 0 # [Suc 0..<Suc numPoints]"
    by (rule upt_conv_Cons) simp
  moreover have "[Suc 0..<Suc numPoints] = Suc 0 # [Suc (Suc 0)..<Suc numPoints]"
    by (rule upt_conv_Cons) (simp add: numPoints_def)
  ultimately show ?thesis by simp
qed

lemma waveShapeData_no_bp:
  "breakingPointFromPhysics inp = None \<Longrightarrow> shoalingPath inp \<noteq> [] \<Longrightarrow>
     waveShapeData inp = waveLoop inp"
  by (simp add: waveShapeData_def forceCrest_def)

lemma no_break_ends: "startX no_break_input = 152" "endX no_break_input = 30"
  "breakingDistDisplay no_break_input = 30" "MAX_DISTANCE no_break_input = 152"
proof -
  have dm: "breakingDistM no_break_input = 30"
    by (simp add: breakingDistM_def no_break_bp js_or_opt_def) (simp add: no_break_input_def js_or_def)
  show "startX no_break_input = 152"
    by (simp add: startX_def maxXFromPath_def MAX_DISTANCE_M_def no_break_input_def)
  show "endX no_break_input = 30" by (simp add: endX_def dm)
  show "breakingDistDisplay no_break_input = 30"
    by (simp add: breakingDistDisplay_def dm) (simp add: no_break_input_def convertDistance_def)
  show "MAX_DISTANCE no_break_input = 152"
    by (simp add: MAX_DISTANCE_def MAX_DISTANCE_M_def no_break_input_def convertDistance_def)
qed

text \<open>
  Claim C5 (the code departs from it).  The final sort of the wave surface stands inside
  the guard of the forced crest, so without a detected breaking point the sequence is
  handed over in generation order, from the offshore start towards the shore.  For the
  input whose samples (200, 5, 1.0, 8) and (100, 3, 1.0, 7) never reach the breaker index,
  the wave surface is not sorted by ascending distance, while bathymetry and envelope,
  which sort unconditionally, are.
\<close>

theorem surface_unsorted_without_breaking_point:
  "breakingPointFromPhysics no_break_input = None
   \<and> \<not> sorted (map w_x (waveShapeData no_break_input))
   \<and> (\<exists>bs ws. bathymetryData no_break_input = Some bs \<and> sorted (map v_x bs)
         \<and> waveEnvelopeData no_break_input = Some ws \<and> sorted (map v_x ws))"
proof -
  have ne: "shoalingPath no_break_input \<noteq> []" by (simp add: no_break_input_def)
  have u: "units no_break_input = metric" by (simp add: no_break_input_def)
  have x0: "w_x (wavePoint_at no_break_input 0) = 152"
    by (simp add: wavePoint_at_def x_m_at_def no_break_ends u convertDistance_def)
  have x1: "w_x (wavePoint_at no_break_input (Suc 0)) = 152 + (30 - 152) / 600"
    by (simp add: wavePoint_at_def x_m_at_def no_break_ends u convertDistance_def numPoints_def)
  have w0: "inWindow no_break_input (wavePoint_at no_break_input 0)"
    by (simp add: inWindow_def x0 no_break_ends)
  have w1: "inWindow no_break_input (wavePoint_at no_break_input (Suc 0))"
    by (simp add: inWindow_def x1 no_break_ends)
  have "waveLoop no_break_input =
      wavePoint_at no_break_input 0 # wavePoint_at no_break_input (Suc 0)
        # filter (inWindow no_break_input)
            (map (wavePoint_at no_break_input) [Suc (Suc 0)..<Suc numPoints])"
    unfolding waveLoop_def upt_first_two using w0 w1 by simp
  then have "\<not> sorted (map w_x (waveLoop no_break_input))"
    by (simp add: x0 x1)
  then have A: "\<not> sorted (map w_x (waveShapeData no_break_input))"
    by (simp add: waveShapeData_no_bp [OF no_break_bp ne])
  have B: "\<exists>bs ws. bathymetryData no_break_input = Some bs \<and> sorted (map v_x bs)
         \<and> waveEnvelopeData no_break_input = Some ws \<and> sorted (map v_x ws)"
    by (simp add: bathymetryData_eq waveEnvelopeData_eq sorted_sort_asc)
  show ?thesis using no_break_bp A B by blast
qed

text \<open>
  With a detected breaking point and a breaking distance in use that is not negative, the
  guard holds and the wave surface is sorted as well.
\<close>

lemma surface_sorted_with_breaking_point:
  assumes "breakingPointFromPhysics inp = Some bp" and "0 \<le> breakingDistM inp"
  shows "sorted (map w_x (waveShapeData inp))"
proof -
  have "shoalingPath inp \<noteq> []"
    using assms(1) by (auto simp: breakingPointFromPhysics_def)
  then show ?thesis
    using assms by (simp add: waveShapeData_def forceCrest_def Let_def sorted_sort_asc)
qed

section \<open>What the wave surface depends on\<close>

lemma before_step_rel:
  "rel_option same_but_c a b \<Longrightarrow> same_but_c p q \<Longrightarrow>
     rel_option same_but_c (before_step d a p) (before_step d b q)"
  by (cases a; cases b) (auto simp: before_step_def lt_or_Infinity_def same_but_c_def)

lemma after_step_rel:
  "rel_option same_but_c a b \<Longrightarrow> same_but_c p q \<Longrightarrow>
     rel_option same_but_c (after_step d a p) (after_step d b q)"
  by (cases a; cases b) (auto simp: after_step_def same_but_c_def)

lemma foldl_rel:
  assumes step: "\<And>a b p q. rel_option same_but_c a b \<Longrightarrow> same_but_c p q \<Longrightarrow>
                   rel_option same_but_c (f a p) (f b q)"
  shows "list_all2 same_but_c xs ys \<Longrightarrow> rel_option same_but_c a b \<Longrightarrow>
     rel_option same_but_c (foldl f a xs) (foldl f b ys)"
proof (induction xs ys arbitrary: a b rule: list_all2_induct)
  case Nil
  then show ?case by simp
next
  case (Cons x xs y ys)
  show ?case using Cons.IH [OF step [OF Cons.prems Cons.hyps(1)]] by simp
qed

lemma closestBefore_rel:
  "list_all2 same_but_c xs ys \<Longrightarrow>
     rel_option same_but_c (closestBefore xs d) (closestBefore ys d)"
  unfolding closestBefore_def by (rule foldl_rel [OF before_step_rel]) simp_all

lemma closestAfter_rel:
  "list_all2 same_but_c xs ys \<Longrightarrow>
     rel_option same_but_c (closestAfter xs d) (closestAfter ys d)"
  unfolding closestAfter_def by (rule foldl_rel [OF after_step_rel]) simp_all

lemma H_surf_m_rel:
  assumes "list_all2 same_but_c xs ys"
  shows "fst (H_surf_m_c xs d) = fst (H_surf_m_c ys d)"
proof -
  have e: "xs = [] \<longleftrightarrow> ys = []" using assms by (cases xs; cases ys) auto
  show ?thesis
    using closestBefore_rel [OF assms, of d] closestAfter_rel [OF assms, of d] e
    by (cases "closestBefore xs d"; cases "closestBefore ys d";
        cases "closestAfter xs d"; cases "closestAfter ys d")
       (auto simp: H_surf_m_c_def branch_of_def interp_t_def interp_divisor_def same_but_c_def)
qed

lemma insort_key_rel:
  "list_all2 same_but_c xs ys \<Longrightarrow> same_but_c p q \<Longrightarrow>
     list_all2 same_but_c (insort_key (\<lambda>p. - p_x p) p xs) (insort_key (\<lambda>p. - p_x p) q ys)"
proof (induction xs ys rule: list_all2_induct)
  case Nil
  then show ?case by simp
next
  case (Cons x xs y ys)
  have k: "p_x x = p_x y" "p_x p = p_x q"
    using Cons.hyps(1) Cons.prems by (simp_all add: same_but_c_def)
  show ?case using Cons by (simp add: k)
qed

lemma sortedPath_rel:
  assumes "list_all2 same_but_c (shoalingPath inp) (shoalingPath inp')"
  shows "list_all2 same_but_c (sortedPath inp) (sortedPath inp')"
proof -
  have "list_all2 same_but_c xs ys \<Longrightarrow>
     list_all2 same_but_c (sort_key (\<lambda>p. - p_x p) xs) (sort_key (\<lambda>p. - p_x p) ys)" for xs ys
    by (induction xs ys rule: list_all2_induct) (simp_all add: insort_key_rel)
  from this [OF assms] show ?thesis by (simp add: sortedPath_def sort_desc_def)
qed

lemma breaking_scan_rel:
  "list_all2 same_but_c xs ys \<Longrightarrow> rel_option same_bp (breaking_scan xs) (breaking_scan ys)"
  by (induction xs ys rule: list_all2_induct) (auto simp: same_but_c_def same_bp_def Let_def)

lemma breakingPoint_rel:
  assumes "list_all2 same_but_c (shoalingPath inp) (shoalingPath inp')"
  shows "rel_option same_bp (breakingPointFromPhysics inp) (breakingPointFromPhysics inp')"
proof -
  have e: "shoalingPath inp = [] \<longleftrightarrow> shoalingPath inp' = []"
    using assms by (cases "shoalingPath inp"; cases "shoalingPath inp'") auto
  show ?thesis using breaking_scan_rel [OF sortedPath_rel [OF assms]] e
    by (simp add: breakingPointFromPhysics_def)
qed


lemma map_x_rel:
  "list_all2 same_but_c xs ys \<Longrightarrow> map p_x xs = map p_x ys"
  by (induction xs ys rule: list_all2_induct) (simp_all add: same_but_c_def)

lemma y_m_at_fst:
  "y_m_at inp i
     = - (fst (H_surf_m_c (shoalingPath inp) (x_m_at inp i)) / 2) * sin (phase_at inp i)"
  by (simp add: y_m_at_def split: prod.splits)

text \<open>
  Claim C9.  Two runs with the same units, default distance and period, whose samples
  agree pairwise in distance, depth and wave height (so differ at most in phase speed),
  and whose reference wavelengths are equal, produce the same wave-surface sequence:
  the same positions and the same elevations.  The phase speed interpolated inside the
  loop reaches no output.
\<close>

theorem surface_independent_of_sample_speeds:
  assumes samples: "list_all2 same_but_c (shoalingPath inp) (shoalingPath inp')"
    and u: "units inp' = units inp"
    and dflt: "distance_from_shore_m inp' = distance_from_shore_m inp"
    and per: "period_s inp' = period_s inp"
    and wl: "wavelength_ref inp' = wavelength_ref inp"
  shows "waveShapeData inp' = waveShapeData inp"
proof -
  note bp = breakingPoint_rel [OF samples]
  have ne: "shoalingPath inp = [] \<longleftrightarrow> shoalingPath inp' = []"
    using samples by (cases "shoalingPath inp"; cases "shoalingPath inp'") auto
  have dm: "breakingDistM inp' = breakingDistM inp"
    using bp dflt
    by (cases "breakingPointFromPhysics inp"; cases "breakingPointFromPhysics inp'")
       (simp_all add: breakingDistM_def same_bp_def)
  have dd: "breakingDistDisplay inp' = breakingDistDisplay inp"
    by (simp add: breakingDistDisplay_def dm u dflt split: option.splits)
  have mx: "maxXFromPath inp' = maxXFromPath inp"
    using map_x_rel [OF samples] by (simp add: maxXFromPath_def)
  have xm: "x_m_at inp' i = x_m_at inp i" for i
    by (simp add: x_m_at_def startX_def endX_def mx dm)
  have ph: "phase_at inp' i = phase_at inp i" for i
    by (simp add: phase_at_def k_ref_def globalPhaseOffset_def wl dm xm)
  have ym: "y_m_at inp' i = y_m_at inp i" for i
    using H_surf_m_rel [OF samples, of "x_m_at inp i"] by (simp add: y_m_at_fst ph xm)
  have wp: "wavePoint_at inp' = wavePoint_at inp"
    by (rule ext) (simp add: wavePoint_at_def signedHeight_def u xm ym)
  have iw: "inWindow inp' = inWindow inp"
    by (rule ext) (simp add: inWindow_def dd MAX_DISTANCE_def u)
  have loop: "waveLoop inp' = waveLoop inp"
    by (simp add: waveLoop_def wp iw)
  have fc: "forceCrest inp' pts = forceCrest inp pts" for pts
  proof (cases "breakingPointFromPhysics inp")
    case None
    then have "breakingPointFromPhysics inp' = None"
      using bp by (cases "breakingPointFromPhysics inp'") simp_all
    with None show ?thesis by (simp add: forceCrest_def)
  next
    case (Some b)
    then obtain b' where b': "breakingPointFromPhysics inp' = Some b'" "same_bp b b'"
      using bp by (cases "breakingPointFromPhysics inp'") simp_all
    have yb: "y_break_display inp' b' = y_break_display inp b"
      using b'(2) by (simp add: y_break_display_def signedHeight_def u same_bp_def Let_def)
    show ?thesis using Some b'(1) by (simp add: forceCrest_def dm u yb Let_def)
  qed
  show ?thesis using ne by (simp add: waveShapeData_def loop fc)
qed

lemma e2e_other_speeds_bp:
  "breakingPointFromPhysics e2e_other_speeds_input
     = Some \<lparr>bp_x = 50, bp_h = 1.0, bp_H = 0.9, bp_c = 5\<rparr>"
  by (simp add: breakingPointFromPhysics_def sortedPath_def sort_desc_def
      e2e_other_speeds_input_def GAMMA_B_def js_or_def)

theorem surface_independent_of_sample_speeds_witness:
  "waveShapeData e2e_other_speeds_input = waveShapeData e2e_input
   \<and> map p_c (shoalingPath e2e_other_speeds_input) = [3, 5, 7]
   \<and> map p_c (shoalingPath e2e_input) = [8, 5, 0]
   \<and> wavelength_ref e2e_other_speeds_input = wavelength_ref e2e_input"
proof -
  have s: "list_all2 same_but_c (shoalingPath e2e_input) (shoalingPath e2e_other_speeds_input)"
    by (simp add: e2e_input_def e2e_samples_def e2e_other_speeds_input_def same_but_c_def)
  have u: "units e2e_other_speeds_input = units e2e_input"
    and d: "distance_from_shore_m e2e_other_speeds_input = distance_from_shore_m e2e_input"
    and p: "period_s e2e_other_speeds_input = period_s e2e_input"
    by (simp_all add: e2e_input_def e2e_other_speeds_input_def)
  have w: "wavelength_ref e2e_other_speeds_input = wavelength_ref e2e_input"
    by (simp add: wavelength_ref_def e2e_bp e2e_other_speeds_bp period_def p)
  have c: "map p_c (shoalingPath e2e_other_speeds_input) = [3, 5, 7]"
     "map p_c (shoalingPath e2e_input) = [8, 5, 0]"
    by (simp_all add: e2e_input_def e2e_samples_def e2e_other_speeds_input_def)
  show ?thesis
    using surface_independent_of_sample_speeds [OF s u d p w] w c by simp
qed

section \<open>The crest at the breaking distance\<close>

lemma map_w_x_update_first: "map w_x (update_first P y xs) = map w_x xs"
  by (induction xs) simp_all

lemma count_update_first:
  "length (filter (\<lambda>p. w_x p = c) (update_first P y xs)) = length (filter (\<lambda>p. w_x p = c) xs)"
  by (induction xs) simp_all

lemma count_sort_asc:
  "length (filter Q (sort_asc f xs)) = length (filter Q xs)"
proof -
  have "mset (filter Q (sort_asc f xs)) = mset (filter Q xs)"
    by (simp add: sort_asc_def)
  then have "size (mset (filter Q (sort_asc f xs))) = size (mset (filter Q xs))" by (rule arg_cong)
  then show ?thesis by (simp only: size_mset)
qed

lemma set_update_first:
  "q \<in> set (update_first P y xs) \<Longrightarrow> q \<in> set xs \<or> (\<exists>p\<in>set xs. q = p\<lparr>w_y := y\<rparr>)"
  by (induction xs) (auto split: if_splits)

lemma filter_last_index: "filter (\<lambda>i. i = n) [0..<Suc n] = [n]"
proof -
  have "filter (\<lambda>i. i = n) [0..<n] = []" by (simp add: filter_empty_conv)
  then show ?thesis by simp
qed

lemma forceCrest_found:
  assumes "breakingPointFromPhysics inp = Some bp" and "0 \<le> breakingDistM inp"
    and "list_ex (\<lambda>p. \<bar>w_x p - convertDistance (units inp) (breakingDistM inp)\<bar> < 0.1) pts"
  shows "forceCrest inp pts =
     sort_asc w_x (update_first (\<lambda>p. \<bar>w_x p - convertDistance (units inp) (breakingDistM inp)\<bar> < 0.1)
        (y_break_display inp bp) pts)"
  using assms by (simp add: forceCrest_def Let_def)

lemma signedHeight_crest:
  "0 < H \<Longrightarrow> signedHeight inp (- (H / 2)) = - convertHeight (units inp) (H / 2)"
  by (simp add: signedHeight_def)

lemma breaking_point_H_pos:
  assumes "breakingPointFromPhysics inp = Some bp"
  shows "0 < bp_H bp"
proof -
  have "\<exists>point\<in>set (shoalingPath inp).
          0 < p_h point \<and> GAMMA_B \<le> p_H point / p_h point \<and> bp_H bp = p_H point"
    using breaking_point_sample [OF assms] by auto
  then obtain point :: ShoalingPathPoint
    where p: "0 < p_h point" "GAMMA_B \<le> p_H point / p_h point" "bp_H bp = p_H point"
    by blast
  have "0 < GAMMA_B * p_h point" using p(1) by (simp add: GAMMA_B_def)
  moreover have "GAMMA_B * p_h point \<le> p_H point"
    using p(1,2) by (simp add: pos_le_divide_eq)
  ultimately show ?thesis using p(3) by simp
qed

lemma breaking_point_fields:
  assumes "breakingPointFromPhysics inp = Some bp"
  shows "\<exists>point\<in>set (shoalingPath inp).
           0 < p_h point \<and> GAMMA_B \<le> p_H point / p_h point
           \<and> bp_x bp = p_x point \<and> bp_H bp = p_H point"
  using breaking_point_sample [OF assms] by auto

lemma H_at_breaking_distance:
  assumes bp: "breakingPointFromPhysics inp = Some bp"
    and same: "\<forall>q\<in>set (shoalingPath inp). p_x q = bp_x bp \<longrightarrow> p_H q = bp_H bp"
  shows "fst (H_surf_m_c (shoalingPath inp) (bp_x bp)) = bp_H bp"
proof -
  obtain point where p: "point \<in> set (shoalingPath inp)"
      "bp_x bp = p_x point" "bp_H bp = p_H point"
    using breaking_point_fields [OF bp] by blast
  have s: "\<forall>q\<in>set (shoalingPath inp). p_x q = p_x point \<longrightarrow> p_H q = p_H point"
    using same by (simp only: p(2,3))
  have ne: "shoalingPath inp \<noteq> []" using p(1) by auto
  have "field_value p_H 0 (p_x point) (branch_of (shoalingPath inp) (p_x point)) = p_H point"
    by (rule field_exact [OF p(1) s])
  then have "fst (H_surf_m_c (shoalingPath inp) (p_x point)) = p_H point"
    using ne by (simp add: H_surf_m_field)
  then show ?thesis by (simp only: p(2,3))
qed


lemma x_m_at_last: "x_m_at inp numPoints = endX inp"
  by (simp add: x_m_at_def numPoints_def)

lemma x_m_at_eq_end:
  assumes "startX inp \<noteq> endX inp" and "i \<le> numPoints"
  shows "x_m_at inp i = endX inp \<longleftrightarrow> i = numPoints"
proof -
  have "x_m_at inp i - endX inp = (endX inp - startX inp) * (real i / real numPoints - 1)"
    by (simp add: x_m_at_def algebra_simps)
  then have "x_m_at inp i = endX inp \<longleftrightarrow> real i / real numPoints = 1"
    using assms(1) by (metis diff_self eq_iff_diff_eq_0 mult_eq_0_iff)
  also have "\<dots> \<longleftrightarrow> i = numPoints" by (simp add: numPoints_def)
  finally show ?thesis .
qed

lemma y_break_display_crest:
  "0 < bp_H bp \<Longrightarrow> y_break_display inp bp = - convertHeight (units inp) (bp_H bp / 2)"
  by (simp add: y_break_display_def Let_def signedHeight_def)

lemma convertDistance_diff:
  "convertDistance u a - convertDistance u b = convertDistance u (a - b)"
  by (simp add: convertDistance_def left_diff_distrib)

lemma convertDistance_scale:
  "convertDistance u (a * r) = convertDistance u a * r"
  by (simp add: convertDistance_def mult.assoc mult.commute [of r])

lemma display_gap:
  "convertDistance (units inp) (x_m_at inp i) - convertDistance (units inp) (endX inp)
     = (convertDistance (units inp) (startX inp) - convertDistance (units inp) (endX inp))
         * (1 - real i / real numPoints)"
proof -
  define r where "r = real i / real numPoints"
  have "x_m_at inp i = startX inp + (endX inp - startX inp) * r"
    by (simp add: x_m_at_def r_def)
  then have m: "x_m_at inp i - endX inp = (startX inp - endX inp) * (1 - r)"
    by (simp add: algebra_simps)
  have "convertDistance (units inp) (x_m_at inp i) - convertDistance (units inp) (endX inp)
      = convertDistance (units inp) ((startX inp - endX inp) * (1 - r))"
    by (simp only: convertDistance_diff m)
  also have "\<dots> = (convertDistance (units inp) (startX inp)
                      - convertDistance (units inp) (endX inp)) * (1 - r)"
    by (simp only: convertDistance_scale convertDistance_diff)
  finally show ?thesis by (simp only: r_def)
qed

lemma update_first_last:
  "\<forall>q\<in>set xs. \<not> P q \<Longrightarrow> P p \<Longrightarrow> update_first P y (xs @ [p]) = xs @ [p\<lparr>w_y := y\<rparr>]"
  by (induction xs) simp_all

lemma update_first_keeps_rest:
  "P a \<Longrightarrow> q \<in> set rest \<Longrightarrow> q \<in> set (update_first P y (pre @ a # rest))"
  by (induction pre) simp_all

lemma waveLoop_nonneg: "p \<in> set (waveLoop inp) \<Longrightarrow> 0 \<le> w_x p"
  by (auto simp: waveLoop_def inWindow_def simp del: upt_Suc)

lemma endX_of_nonneg: "0 \<le> breakingDistM inp \<Longrightarrow> endX inp = breakingDistM inp"
  by (simp add: endX_def)

lemma last_in_window:
  assumes "0 \<le> breakingDistM inp"
  shows "inWindow inp (wavePoint_at inp numPoints)"
proof -
  have x: "w_x (wavePoint_at inp numPoints) = convertDistance (units inp) (breakingDistM inp)"
    using assms by (simp add: wavePoint_at_def x_m_at_last endX_of_nonneg)
  have lo: "0 \<le> convertDistance (units inp) (breakingDistM inp)"
    using assms by (simp add: convertDistance_def)
  have hi: "convertDistance (units inp) (breakingDistM inp)
              \<le> max (breakingDistDisplay inp) (MAX_DISTANCE inp)"
  proof (cases "0 < breakingDistM inp")
    case True
    then show ?thesis by (simp add: breakingDistDisplay_def)
  next
    case False
    with assms have "breakingDistM inp = 0" by simp
    then show ?thesis using MAX_DISTANCE_nonneg [of inp] by (simp add: max_def)
  qed
  show ?thesis using lo hi by (simp add: inWindow_def x)
qed

lemma waveLoop_snoc:
  assumes "0 \<le> breakingDistM inp"
  shows "waveLoop inp
     = filter (inWindow inp) (map (wavePoint_at inp) [0..<numPoints]) @ [wavePoint_at inp numPoints]"
  using last_in_window [OF assms] by (simp add: waveLoop_def)




lemma shore_break_dist: "breakingDistM shore_break_input = 30"
  by (simp add: breakingDistM_def shore_break_bp js_or_opt_def)
     (simp add: shore_break_input_def js_or_def)

lemma upt_last_two: "[0..<Suc (Suc m)] = [0..<m] @ [m, Suc m]"
  by simp



lemma single_sample_bp:
  "breakingPointFromPhysics single_sample_input
     = Some \<lparr>bp_x = 50, bp_h = 1.0, bp_H = 0.9, bp_c = 5\<rparr>"
  by (simp add: breakingPointFromPhysics_def sortedPath_def sort_desc_def
      single_sample_input_def GAMMA_B_def js_or_def)

lemma single_sample_count:
  "length (filter (\<lambda>p. w_x p = 50) (waveShapeData single_sample_input)) = 601"
proof -
  let ?inp = single_sample_input
  have dm: "breakingDistM ?inp = 50"
    using breakingDistM_of_bp [OF single_sample_bp] by simp
  have u: "units ?inp = metric" by (simp add: single_sample_input_def)
  have ne: "shoalingPath ?inp \<noteq> []" by (simp add: single_sample_input_def)
  have sx: "startX ?inp = 50"
    by (simp add: startX_def maxXFromPath_def MAX_DISTANCE_M_def single_sample_input_def)
  have ex: "endX ?inp = 50" by (simp add: endX_def dm)
  have x: "w_x (wavePoint_at ?inp i) = 50" for i
    by (simp add: wavePoint_at_def x_m_at_def sx ex u convertDistance_def)
  have dd: "breakingDistDisplay ?inp = 50"
    by (simp add: breakingDistDisplay_def dm u convertDistance_def)
  have win: "inWindow ?inp (wavePoint_at ?inp i)" for i
    by (simp add: inWindow_def x dd MAX_DISTANCE_def MAX_DISTANCE_M_def u convertDistance_def)
  have loop: "waveLoop ?inp = map (wavePoint_at ?inp) [0..<Suc numPoints]"
    by (simp add: waveLoop_def win del: upt_Suc)
  have allx: "filter (\<lambda>p. w_x p = 50) (waveLoop ?inp) = waveLoop ?inp"
    by (simp add: loop x del: upt_Suc)
  have "wavePoint_at ?inp 0 \<in> set (waveLoop ?inp)" by (simp add: loop del: upt_Suc)
  moreover have "\<bar>w_x (wavePoint_at ?inp 0) - convertDistance (units ?inp) (breakingDistM ?inp)\<bar> < 0.1"
    by (simp add: x dm u convertDistance_def)
  ultimately have near:
    "list_ex (\<lambda>p. \<bar>w_x p - convertDistance (units ?inp) (breakingDistM ?inp)\<bar> < 0.1) (waveLoop ?inp)"
    unfolding list_ex_iff by blast
  have "0 \<le> breakingDistM ?inp" by (simp add: dm)
  from forceCrest_found [OF single_sample_bp this near]
  have "length (filter (\<lambda>p. w_x p = 50) (waveShapeData ?inp))
        = length (filter (\<lambda>p. w_x p = 50) (waveLoop ?inp))"
    using ne by (simp add: waveShapeData_def count_sort_asc count_update_first)
  also have "\<dots> = 601" by (simp only: allx) (simp add: loop numPoints_def del: upt_Suc)
  finally show ?thesis .
qed

lemma near_shore_break_bp:
  "breakingPointFromPhysics near_shore_break_input
     = Some \<lparr>bp_x = 0, bp_h = 1.0, bp_H = 0.9, bp_c = 5\<rparr>"
  by (simp add: breakingPointFromPhysics_def sortedPath_def sort_desc_def
      near_shore_break_input_def GAMMA_B_def js_or_def)

lemma near_shore_break_dist: "breakingDistM near_shore_break_input = 30"
  by (simp add: breakingDistM_def near_shore_break_bp js_or_opt_def)
     (simp add: near_shore_break_input_def js_or_def)

lemma near_shore_break_point:
  "\<exists>p\<in>set (waveShapeData near_shore_break_input). w_x p = 30 \<and> w_y p = - 0.48"
proof -
  let ?inp = near_shore_break_input
  let ?near = "\<lambda>p. \<bar>w_x p - convertDistance (units ?inp) (breakingDistM ?inp)\<bar> < 0.1"
  let ?Y = "y_break_display ?inp \<lparr>bp_x = 0, bp_h = 1.0, bp_H = 0.9, bp_c = 5\<rparr>"
  let ?pre = "filter (inWindow ?inp) (map (wavePoint_at ?inp) [0..<599])"
  have u: "units ?inp = metric" by (simp add: near_shore_break_input_def)
  have ne: "shoalingPath ?inp \<noteq> []" by (simp add: near_shore_break_input_def)
  have dm: "breakingDistM ?inp = 30" by (rule near_shore_break_dist)
  have sx: "startX ?inp = 50"
    by (simp add: startX_def maxXFromPath_def MAX_DISTANCE_M_def near_shore_break_input_def)
  have ex: "endX ?inp = 30" by (simp add: endX_def dm)
  have x599: "w_x (wavePoint_at ?inp 599) = 901 / 30"
    by (simp add: wavePoint_at_def x_m_at_def sx ex u convertDistance_def numPoints_def)
  have x600: "w_x (wavePoint_at ?inp 600) = 30"
    by (simp add: wavePoint_at_def x_m_at_def sx ex u convertDistance_def numPoints_def)
  have dd: "breakingDistDisplay ?inp = 30"
    by (simp add: breakingDistDisplay_def dm u convertDistance_def)
  have mx: "MAX_DISTANCE ?inp = 152"
    by (simp add: MAX_DISTANCE_def MAX_DISTANCE_M_def u convertDistance_def)
  have w599: "inWindow ?inp (wavePoint_at ?inp 599)" by (simp add: inWindow_def x599 dd mx)
  have w600: "inWindow ?inp (wavePoint_at ?inp 600)" by (simp add: inWindow_def x600 dd mx)
  have "Suc numPoints = Suc (Suc 599)" by (simp add: numPoints_def)
  then have "[0..<Suc numPoints] = [0..<599] @ [599, Suc 599]" by (simp only: upt_last_two)
  then have loop: "waveLoop ?inp = ?pre @ wavePoint_at ?inp 599 # [wavePoint_at ?inp 600]"
    using w599 w600 by (simp add: waveLoop_def)
  have n599: "?near (wavePoint_at ?inp 599)" by (simp add: x599 dm u convertDistance_def)
  then have near: "list_ex ?near (waveLoop ?inp)" by (simp add: loop)
  have "0 \<le> breakingDistM ?inp" by (simp add: dm)
  from forceCrest_found [OF near_shore_break_bp this near]
  have wsd: "waveShapeData ?inp = sort_asc w_x (update_first ?near ?Y (waveLoop ?inp))"
    using ne by (simp add: waveShapeData_def)
  have "wavePoint_at ?inp 600 \<in> set (update_first ?near ?Y (waveLoop ?inp))"
    unfolding loop
    by (rule update_first_keeps_rest
          [where P = ?near and a = "wavePoint_at ?inp 599", OF n599]) simp
  then have mem: "wavePoint_at ?inp 600 \<in> set (waveShapeData ?inp)" by (simp add: wsd)
  have wl: "wavelength_ref ?inp = 55"
    by (simp add: wavelength_ref_def near_shore_break_bp period_def js_or_opt_def)
       (simp add: near_shore_break_input_def)
  have xm: "x_m_at ?inp 600 = 30" by (simp add: x_m_at_def sx ex numPoints_def)
  have "sin (phase_at ?inp 600) = 1"
    by (simp add: phase_at_def globalPhaseOffset_def k_ref_def wl xm dm Let_def)
  moreover have "fst (H_surf_m_c (shoalingPath ?inp) 30) = 0.96"
    by (simp add: H_surf_m_c_def interp_unfold near_shore_break_input_def)
  ultimately have "w_y (wavePoint_at ?inp 600) = - 0.48"
    by (simp add: wavePoint_at_def y_m_at_fst xm signedHeight_def u convertHeight_def)
  with mem x600 show ?thesis by blast
qed

lemma negative_default_bp:
  "breakingPointFromPhysics negative_default_input
     = Some \<lparr>bp_x = 0, bp_h = 1.0, bp_H = 0.9, bp_c = 5\<rparr>"
  by (simp add: breakingPointFromPhysics_def sortedPath_def sort_desc_def
      negative_default_input_def GAMMA_B_def js_or_def)

lemma negative_default_dist: "breakingDistM negative_default_input = - 5"
  by (simp add: breakingDistM_def negative_default_bp js_or_opt_def)
     (simp add: negative_default_input_def js_or_def)

lemma negative_default_no_point:
  "filter (\<lambda>p. w_x p = - 5) (waveShapeData negative_default_input) = []"
proof -
  have "shoalingPath negative_default_input \<noteq> []" by (simp add: negative_default_input_def)
  then have "waveShapeData negative_default_input = waveLoop negative_default_input"
    by (simp add: waveShapeData_def forceCrest_def negative_default_bp negative_default_dist)
  moreover have "w_x p \<noteq> - 5" if "p \<in> set (waveLoop negative_default_input)" for p
    using waveLoop_nonneg [OF that] by simp
  ultimately show ?thesis by (simp add: filter_empty_conv)
qed

lemma negative_period_bp:
  "breakingPointFromPhysics negative_period_input
     = Some \<lparr>bp_x = 50, bp_h = 1.0, bp_H = 0.9, bp_c = 5\<rparr>"
  unfolding breakingPointFromPhysics_def
  by (simp add: sortedPath_e2e negative_period_input_def)
     (simp add: e2e_samples_def GAMMA_B_def js_or_def)

lemma negative_period_offset:
  "wavelength_ref negative_period_input = - 55
   \<and> globalPhaseOffset negative_period_input = 0
   \<and> globalPhaseOffset negative_period_input
       \<noteq> pi / 2 - k_ref negative_period_input * breakingDistM negative_period_input"
proof -
  have dm: "breakingDistM negative_period_input = 50"
    using breakingDistM_of_bp [OF negative_period_bp] by simp
  have wl: "wavelength_ref negative_period_input = - 55"
    by (simp add: wavelength_ref_def negative_period_bp period_def js_or_opt_def)
       (simp add: negative_period_input_def js_or_def)
  have g: "globalPhaseOffset negative_period_input = 0"
    by (simp add: globalPhaseOffset_def wl)
  have "pi / 2 - k_ref negative_period_input * breakingDistM negative_period_input
          = pi * (51 / 22)"
    by (simp add: k_ref_def wl dm)
  moreover have "pi * (51 / 22) \<noteq> 0" by simp
  ultimately
  have "pi / 2 - k_ref negative_period_input * breakingDistM negative_period_input \<noteq> 0"
    by metis
  with wl g show ?thesis by simp
qed



section \<open>The reference wavelength in every generated point\<close>

lemma waveShapeData_points:
  assumes "p \<in> set (waveShapeData inp)"
  shows "p \<in> set (waveLoop inp)
     \<or> (\<exists>bp. breakingPointFromPhysics inp = Some bp \<and> w_y p = y_break_display inp bp)"
proof (cases "breakingPointFromPhysics inp")
  case None
  with assms show ?thesis
    by (simp add: waveShapeData_def forceCrest_def split: if_splits)
next
  case (Some bp)
  let ?near = "\<lambda>p. \<bar>w_x p - convertDistance (units inp) (breakingDistM inp)\<bar> < 0.1"
  let ?Y = "y_break_display inp bp"
  from assms Some consider "p \<in> set (waveLoop inp)"
    | "p = \<lparr>w_x = convertDistance (units inp) (breakingDistM inp), w_y = ?Y\<rparr>"
    | "p \<in> set (update_first ?near ?Y (waveLoop inp))"
    by (auto simp: waveShapeData_def forceCrest_def Let_def split: if_splits)
  then show ?thesis
  proof cases
    case 1
    then show ?thesis by simp
  next
    case 2
    with Some show ?thesis by simp
  next
    case 3
    from set_update_first [OF this] Some show ?thesis by auto
  qed
qed

lemma waveLoop_positions_kept:
  assumes ne: "shoalingPath inp \<noteq> []" and "q \<in> set (waveLoop inp)"
  shows "\<exists>p\<in>set (waveShapeData inp). w_x p = w_x q"
proof -
  have "w_x q \<in> set (map w_x (waveLoop inp))" using assms by simp
  moreover have "set (map w_x (waveLoop inp)) \<subseteq> set (map w_x (waveShapeData inp))"
  proof (cases "breakingPointFromPhysics inp")
    case None
    with ne show ?thesis by (simp add: waveShapeData_def forceCrest_def)
  next
    case (Some bp)
    let ?near = "\<lambda>p. \<bar>w_x p - convertDistance (units inp) (breakingDistM inp)\<bar> < 0.1"
    have "set (map w_x (update_first ?near (y_break_display inp bp) (waveLoop inp)))
            = set (map w_x (waveLoop inp))"
      by (simp only: map_w_x_update_first)
    then show ?thesis using Some ne
      by (auto simp: waveShapeData_def forceCrest_def Let_def)
  qed
  ultimately have "w_x q \<in> set (map w_x (waveShapeData inp))" by blast
  then obtain p where "p \<in> set (waveShapeData inp)" "w_x p = w_x q" by auto
  then show ?thesis by blast
qed


text \<open>
  Claim C7.  For a non-empty path the synthesizer uses one reference wavelength: the
  phase speed stored in the breaking point times the period when a breaking point was
  detected, else the mean over all samples of the phase speed (a speed of 0 counting as
  the default 10.0) times the period; with no zero speed among the samples this is the
  plain mean.  The speed stored in the breaking point is that of a sample.  The generated
  points are exactly the points, for the indices 0 to 600 whose position lies in the
  window, with elevation -(H/2) sin((2 pi / wavelength_ref) x + globalPhaseOffset) in
  display units: the one wave number at every position.  Every point of the returned
  wave surface is such a generated point or carries the forced-crest elevation, and every
  generated position is kept.
\<close>

theorem wavelength_ref_fixed:
  "shoalingPath inp \<noteq> [] \<Longrightarrow>
   wavelength_ref inp =
     (case breakingPointFromPhysics inp of
        Some bp \<Rightarrow> bp_c bp * period inp
      | None \<Rightarrow> (sum_list (map (\<lambda>p. js_or (p_c p) 10.0) (shoalingPath inp))
                  / real (length (shoalingPath inp))) * period inp)
   \<and> ((\<forall>p\<in>set (shoalingPath inp). p_c p \<noteq> 0) \<longrightarrow>
        wavelength_ref inp =
          (case breakingPointFromPhysics inp of
             Some bp \<Rightarrow> bp_c bp * period inp
           | None \<Rightarrow> (sum_list (map p_c (shoalingPath inp))
                       / real (length (shoalingPath inp))) * period inp))
   \<and> (\<forall>bp. breakingPointFromPhysics inp = Some bp \<longrightarrow>
         (\<exists>point\<in>set (shoalingPath inp).
            bp_x bp = p_x point \<and> bp_H bp = p_H point \<and> bp_c bp = js_or (p_c point) 10.0))
   \<and> waveLoop inp =
        filter (inWindow inp)
          (map (\<lambda>i. \<lparr>w_x = convertDistance (units inp) (x_m_at inp i),
                      w_y = signedHeight inp
                              (- (fst (H_surf_m_c (shoalingPath inp) (x_m_at inp i)) / 2)
                                 * sin ((2 * pi / wavelength_ref inp) * x_m_at inp i
                                        + globalPhaseOffset inp))\<rparr>)
             [0..<Suc numPoints])
   \<and> (\<forall>p\<in>set (waveShapeData inp).
          p \<in> set (waveLoop inp)
          \<or> (\<exists>bp. breakingPointFromPhysics inp = Some bp \<and> w_y p = y_break_display inp bp))
   \<and> (\<forall>q\<in>set (waveLoop inp). \<exists>p\<in>set (waveShapeData inp). w_x p = w_x q)"
proof (intro conjI allI impI ballI)
  assume ne: "shoalingPath inp \<noteq> []"
  show w: "wavelength_ref inp =
     (case breakingPointFromPhysics inp of
        Some bp \<Rightarrow> bp_c bp * period inp
      | None \<Rightarrow> (sum_list (map (\<lambda>p. js_or (p_c p) 10.0) (shoalingPath inp))
                  / real (length (shoalingPath inp))) * period inp)"
  proof (cases "breakingPointFromPhysics inp")
    case None
    with ne show ?thesis by (simp add: wavelength_ref_def avgC_mean)
  next
    case (Some bp)
    then show ?thesis using breaking_point_c_nonzero [OF Some] by (simp add: wavelength_ref_def)
  qed
  {
    assume nz: "\<forall>p\<in>set (shoalingPath inp). p_c p \<noteq> 0"
    then have eq: "sum_list (map (\<lambda>p. js_or (p_c p) 10.0) (shoalingPath inp))
        = sum_list (map p_c (shoalingPath inp))"
      by (simp add: js_or_def cong: map_cong)
    show "wavelength_ref inp =
          (case breakingPointFromPhysics inp of
             Some bp \<Rightarrow> bp_c bp * period inp
           | None \<Rightarrow> (sum_list (map p_c (shoalingPath inp))
                       / real (length (shoalingPath inp))) * period inp)"
      using w by (simp only: eq)
  }
  show "waveLoop inp =
        filter (inWindow inp)
          (map (\<lambda>i. \<lparr>w_x = convertDistance (units inp) (x_m_at inp i),
                      w_y = signedHeight inp
                              (- (fst (H_surf_m_c (shoalingPath inp) (x_m_at inp i)) / 2)
                                 * sin ((2 * pi / wavelength_ref inp) * x_m_at inp i
                                        + globalPhaseOffset inp))\<rparr>)
             [0..<Suc numPoints])"
  proof -
    have "wavePoint_at inp =
       (\<lambda>i. \<lparr>w_x = convertDistance (units inp) (x_m_at inp i),
                      w_y = signedHeight inp
                              (- (fst (H_surf_m_c (shoalingPath inp) (x_m_at inp i)) / 2)
                                 * sin ((2 * pi / wavelength_ref inp) * x_m_at inp i
                                        + globalPhaseOffset inp))\<rparr>)"
      by (rule ext) (simp add: wavePoint_at_def y_m_at_fst phase_at_def k_ref_def)
    then show ?thesis by (simp only: waveLoop_def)
  qed
next
  fix bp assume "breakingPointFromPhysics inp = Some bp"
  from breaking_point_sample [OF this]
  show "\<exists>point\<in>set (shoalingPath inp).
            bp_x bp = p_x point \<and> bp_H bp = p_H point \<and> bp_c bp = js_or (p_c point) 10.0"
    by auto
next
  fix p assume "p \<in> set (waveShapeData inp)"
  then show "p \<in> set (waveLoop inp)
          \<or> (\<exists>bp. breakingPointFromPhysics inp = Some bp \<and> w_y p = y_break_display inp bp)"
    by (rule waveShapeData_points)
next
  fix q assume "shoalingPath inp \<noteq> []" "q \<in> set (waveLoop inp)"
  then show "\<exists>p\<in>set (waveShapeData inp). w_x p = w_x q"
    by (rule waveLoop_positions_kept)
qed

theorem wavelength_ref_fixed_witness:
  "wavelength_ref e2e_input = 5 * 11
   \<and> wavelength_ref no_break_input = (8 + 7) / 2 * 11
   \<and> (\<exists>p\<in>set (waveShapeData no_break_input).
         w_x p = 152
         \<and> w_y p = signedHeight no_break_input
                     (- (1 / 2) * sin (2 * pi / ((8 + 7) / 2 * 11) * 152
                                       + globalPhaseOffset no_break_input)))"
proof -
  have ne1: "shoalingPath e2e_input \<noteq> []" by (simp add: e2e_input_def e2e_samples_def)
  have ne2: "shoalingPath no_break_input \<noteq> []" by (simp add: no_break_input_def)
  have nz: "\<forall>p\<in>set (shoalingPath no_break_input). p_c p \<noteq> 0" by (simp add: no_break_input_def)
  have p1: "period e2e_input = 11" by (simp add: period_def e2e_input_def js_or_opt_def)
  have p2: "period no_break_input = 11" by (simp add: period_def no_break_input_def js_or_opt_def)
  have A: "wavelength_ref e2e_input = 5 * 11"
    using wavelength_ref_fixed [OF ne1] by (simp add: e2e_bp p1)
  have B: "wavelength_ref no_break_input = (8 + 7) / 2 * 11"
    using wavelength_ref_fixed [OF ne2] nz by (simp add: no_break_bp p2) (simp add: no_break_input_def)
  let ?F = "\<lambda>i. \<lparr>w_x = convertDistance (units no_break_input) (x_m_at no_break_input i),
                      w_y = signedHeight no_break_input
                              (- (fst (H_surf_m_c (shoalingPath no_break_input) (x_m_at no_break_input i)) / 2)
                                 * sin ((2 * pi / wavelength_ref no_break_input) * x_m_at no_break_input i
                                        + globalPhaseOffset no_break_input))\<rparr>"
  have loop: "waveLoop no_break_input
                = filter (inWindow no_break_input) (map ?F [0..<Suc numPoints])"
    using wavelength_ref_fixed [OF ne2] by blast
  have x0: "x_m_at no_break_input 0 = 152" by (simp add: x_m_at_def no_break_ends)
  have u: "units no_break_input = metric" by (simp add: no_break_input_def)
  have H0: "fst (H_surf_m_c (shoalingPath no_break_input) 152) = 1"
    by (simp add: H_surf_m_c_def interp_unfold no_break_input_def)
  have F0: "?F 0 = \<lparr>w_x = 152,
                      w_y = signedHeight no_break_input
                     (- (1 / 2) * sin (2 * pi / ((8 + 7) / 2 * 11) * 152
                                       + globalPhaseOffset no_break_input))\<rparr>"
    by (simp add: x0 u convertDistance_def H0 B)
  have "inWindow no_break_input (?F 0)"
    by (simp only: F0) (simp add: inWindow_def no_break_ends)
  moreover have "?F 0 \<in> set (map ?F [0..<Suc numPoints])"
  proof -
    have "(0::nat) \<in> set [0..<Suc numPoints]" by auto
    then have "?F 0 \<in> ?F ` set [0..<Suc numPoints]" by (rule imageI)
    then show ?thesis by (simp only: set_map)
  qed
  ultimately have "?F 0 \<in> set (waveLoop no_break_input)" by (simp only: loop set_filter) simp
  then have "?F 0 \<in> set (waveShapeData no_break_input)"
    by (simp only: waveShapeData_no_bp [OF no_break_bp ne2])
  then have C: "\<exists>p\<in>set (waveShapeData no_break_input).
         w_x p = 152
         \<and> w_y p = signedHeight no_break_input
                     (- (1 / 2) * sin (2 * pi / ((8 + 7) / 2 * 11) * 152
                                       + globalPhaseOffset no_break_input))"
    by (simp only: F0) (rule bexI [rotated], assumption, simp)
  show ?thesis using A B C by blast
qed

end
